theory Spec2Isabelle
  imports Main "HOL-Library.Word"
begin

unbundle bit_operations_syntax

section \<open>Data model of the Vulkan application base (common/vkappbase.cpp)\<close>

text \<open>
  Handles of the graphics API are opaque 64-bit values, counts and flag sets are
  \<open>uint32_t\<close>, enumerations (\<open>VkResult\<close>, \<open>VkFormat\<close>, ...) are C enums and are read
  as integers. The constants below carry the values the Vulkan headers give them.
\<close>

type_synonym u32 = "32 word"
type_synonym u64 = "64 word"
type_synonym handle = "64 word"
type_synonym VkResult = int
type_synonym VkFormat = int

definition VK_SUCCESS :: VkResult where "VK_SUCCESS = 0"
definition VK_ERROR_DEVICE_LOST :: VkResult where "VK_ERROR_DEVICE_LOST = - 4"
definition VK_FORMAT_B8G8R8A8_UNORM :: VkFormat where "VK_FORMAT_B8G8R8A8_UNORM = 44"
definition VK_FORMAT_D32_SFLOAT :: VkFormat where "VK_FORMAT_D32_SFLOAT = 126"
definition VK_PRESENT_MODE_FIFO_KHR :: int where "VK_PRESENT_MODE_FIFO_KHR = 2"
definition VK_QUEUE_GRAPHICS_BIT :: u32 where "VK_QUEUE_GRAPHICS_BIT = 1"
definition VK_MEMORY_PROPERTY_DEVICE_LOCAL_BIT :: u32 where "VK_MEMORY_PROPERTY_DEVICE_LOCAL_BIT = 1"
definition VK_FENCE_CREATE_SIGNALED_BIT :: u32 where "VK_FENCE_CREATE_SIGNALED_BIT = 1"
definition VK_COMMAND_POOL_CREATE_RESET_COMMAND_BUFFER_BIT :: u32 where
  "VK_COMMAND_POOL_CREATE_RESET_COMMAND_BUFFER_BIT = 2"
definition VK_IMAGE_USAGE_DEPTH_STENCIL_ATTACHMENT_BIT :: u32 where
  "VK_IMAGE_USAGE_DEPTH_STENCIL_ATTACHMENT_BIT = 32"
definition VK_IMAGE_ASPECT_COLOR_BIT :: u32 where "VK_IMAGE_ASPECT_COLOR_BIT = 1"
definition VK_IMAGE_ASPECT_DEPTH_BIT :: u32 where "VK_IMAGE_ASPECT_DEPTH_BIT = 2"
definition VK_COMMAND_BUFFER_LEVEL_PRIMARY :: int where "VK_COMMAND_BUFFER_LEVEL_PRIMARY = 0"

text \<open>The value \<open>~0u\<close> the source uses as "no index" and as "extent undefined".\<close>

definition NO_INDEX :: u32 where "NO_INDEX = NOT 0"

record VkExtent2D =
  width :: u32
  height :: u32

record VkSurfaceFormatKHR =
  format :: VkFormat
  colorSpace :: int

record VkSurfaceCapabilitiesKHR =
  minImageCount :: u32
  currentExtent :: VkExtent2D
  currentTransform :: u32

record VkMemoryType =
  propertyFlags :: u32
  heapIndex :: u32

text \<open>\<open>memoryTypes\<close> is the fixed array of \<open>VK_MAX_MEMORY_TYPES = 32\<close> entries.\<close>

record VkPhysicalDeviceMemoryProperties =
  memoryTypeCount :: u32
  memoryTypes :: "VkMemoryType list"

record VkMemoryRequirements =
  mr_size :: u64
  memoryTypeBits :: u32

subsection \<open>The history of driver calls\<close>

text \<open>
  Every call the application base makes against the driver, the window system or one of its own
  hooks is recorded, with the arguments the properties below talk about and with the
  result code the driver returned.
\<close>

datatype kind =
    Instance | Device | CommandPool | Surface | Swapchain | Image | DeviceMemory
  | ImageView | RenderPass | Framebuffer | CommandBuffer | Fence | Semaphore

datatype query =
    EnumerateInstanceExtensionProperties | EnumeratePhysicalDevices
  | GetPhysicalDeviceMemoryProperties | GetPhysicalDeviceQueueFamilyProperties
  | EnumerateDeviceExtensionProperties | GetDeviceQueue
  | GetPhysicalDeviceSurfaceFormatsKHR | GetPhysicalDeviceSurfaceCapabilitiesKHR
  | GetPhysicalDeviceSurfaceSupportKHR | GetWindowSize
  | GetImageMemoryRequirements | GetSwapchainImagesKHR

datatype info =
    NoInfo
  | DeviceCI u32
  | CommandPoolCI u32 u32
  | SwapchainCI handle u32 VkSurfaceFormatKHR VkExtent2D int
  | ImageCI VkFormat VkExtent2D u32
  | MemoryAI u64 u32
  | ImageViewCI handle VkFormat u32
  | RenderPassCI VkFormat VkFormat
  | FramebufferCI handle "handle list" VkExtent2D
  | FenceCI u32

datatype event =
    Create kind info handle VkResult
  | AllocateCommandBuffers handle int "handle list" VkResult
  | FreeCommandBuffers handle "handle list"
  | Destroy kind handle
  | Query query
  | BindImageMemory handle handle VkResult
  | DeviceWaitIdle VkResult
  | Prepare
  | Cleanup
  | AcquireNextImage handle handle u32 VkResult
  | WaitForFences handle VkResult
  | BeginCommandBuffer handle VkResult
  | CmdBeginRenderPass handle handle handle VkExtent2D
  | MakeCommand handle u32
  | CmdEndRenderPass handle
  | EndCommandBuffer handle VkResult
  | ResetFences handle VkResult
  | QueueSubmit handle handle handle handle VkResult
  | QueuePresent handle u32 handle VkResult

subsection \<open>The application object\<close>

text \<open>
  The members of \<open>VulkanAppBase\<close>. \<open>driverCalls\<close> is not a member: it is the history
  of calls made so far, kept beside the object.
\<close>

record VulkanAppBase =
  m_instance :: handle
  m_physDev :: handle
  m_physMemProps :: VkPhysicalDeviceMemoryProperties
  m_graphicsQueueIndex :: u32
  m_device :: handle
  m_deviceQueue :: handle
  m_commandPool :: handle
  m_surface :: handle
  m_surfaceFormat :: VkSurfaceFormatKHR
  m_surfaceCaps :: VkSurfaceCapabilitiesKHR
  m_presentMode :: int
  m_swapchain :: handle
  m_swapchainExtent :: VkExtent2D
  m_swapchainImages :: "handle list"
  m_swapchainViews :: "handle list"
  m_depthBuffer :: handle
  m_depthBufferMemory :: handle
  m_depthBufferView :: handle
  m_renderPass :: handle
  m_framebuffers :: "handle list"
  m_commands :: "handle list"
  m_fences :: "handle list"
  m_renderCompletedSem :: handle
  m_presentCompletedSem :: handle
  m_imageIndex :: u32
  driverCalls :: "event list"

subsection \<open>The driver and the window system\<close>

text \<open>
  What the environment answers. \<open>vkResult n\<close> is the result code of the call issued
  when \<open>n\<close> calls are in the history, \<open>newHandle n j\<close> the \<open>j\<close>-th handle that call
  writes, \<open>acquiredIndex n\<close> the image index an acquire issued then writes. The other
  fields are what the enumeration and property queries report; the swapchain's images
  are reported as a \<open>uint32_t\<close> count and the array of that many handles.
\<close>

record Driver =
  vkResult :: "nat \<Rightarrow> VkResult"
  newHandle :: "nat \<Rightarrow> nat \<Rightarrow> handle"
  acquiredIndex :: "nat \<Rightarrow> u32"
  physDevs :: "handle list"
  memProps :: VkPhysicalDeviceMemoryProperties
  queueFamilies :: "u32 list"
  surfaceFormats :: "VkSurfaceFormatKHR list"
  surfaceCaps :: VkSurfaceCapabilitiesKHR
  windowSize :: "int \<times> int"
  memReqs :: VkMemoryRequirements
  swapchainImageCount :: u32
  swapchainImage :: "nat \<Rightarrow> handle"

text \<open>
  How a call of the application base can stop: \<open>DebugBreak\<close> is the breakpoint trap raised by
  \<open>checkResult\<close>, \<open>OutOfBounds\<close> an index past the end of a \<open>std::vector\<close>.
\<close>

datatype fault = DebugBreak | OutOfBounds

definition andThen :: "fault + 'a \<Rightarrow> ('a \<Rightarrow> fault + 'b) \<Rightarrow> fault + 'b" where
  "andThen m f = (case m of Inl e \<Rightarrow> Inl e | Inr x \<Rightarrow> f x)"

definition emit :: "event \<Rightarrow> VulkanAppBase \<Rightarrow> VulkanAppBase" where
  "emit e s = s\<lparr>driverCalls := driverCalls s @ [e]\<rparr>"

definition res :: "Driver \<Rightarrow> VulkanAppBase \<Rightarrow> VkResult" where
  "res drv s = vkResult drv (length (driverCalls s))"

definition out :: "Driver \<Rightarrow> VulkanAppBase \<Rightarrow> handle" where
  "out drv s = newHandle drv (length (driverCalls s)) 0"

text \<open>\<open>std::vector::resize\<close>: keeps the front, fills with null handles.\<close>

definition resize :: "nat \<Rightarrow> handle list \<Rightarrow> handle list" where
  "resize n xs = take n xs @ replicate (n - length xs) 0"

section \<open>The functions of VulkanAppBase\<close>

definition checkResult :: "VkResult \<Rightarrow> VulkanAppBase \<Rightarrow> fault + VulkanAppBase" where
  "checkResult result s = (if result \<noteq> VK_SUCCESS then Inl DebugBreak else Inr s)"

text \<open>
  The constructor initialises \<open>m_presentMode\<close> and \<open>m_imageIndex\<close>; the vectors are
  default-constructed empty; every other member holds whatever \<open>raw\<close> holds.
\<close>

definition VulkanAppBase_ctor :: "VulkanAppBase \<Rightarrow> VulkanAppBase" where
  "VulkanAppBase_ctor raw =
     raw\<lparr>m_presentMode := VK_PRESENT_MODE_FIFO_KHR, m_imageIndex := 0,
         m_swapchainImages := [], m_swapchainViews := [], m_framebuffers := [],
         m_commands := [], m_fences := [], driverCalls := []\<rparr>"

subsection \<open>getMemoryTypeIndex\<close>

function getMemoryTypeIndex_loop ::
  "VkPhysicalDeviceMemoryProperties \<Rightarrow> u32 \<Rightarrow> u32 \<Rightarrow> u32 \<Rightarrow> u32" where
  "getMemoryTypeIndex_loop mp requestProps i requestBits =
     (if i < memoryTypeCount mp then
        (if requestBits AND 1 \<noteq> 0
            \<and> propertyFlags (memoryTypes mp ! unat i) AND requestProps = requestProps
         then i
         else getMemoryTypeIndex_loop mp requestProps (i + 1) (drop_bit 1 requestBits))
      else NO_INDEX)"
  by pat_completeness auto
termination
  apply (relation "measure (\<lambda>(mp, p, i, b). unat (memoryTypeCount mp) - unat i)")
   apply simp
  apply simp
  apply unat_arith
  done

declare getMemoryTypeIndex_loop.simps [simp del]

definition getMemoryTypeIndex :: "VulkanAppBase \<Rightarrow> u32 \<Rightarrow> u32 \<Rightarrow> u32" where
  "getMemoryTypeIndex s requestBits requestProps =
     getMemoryTypeIndex_loop (m_physMemProps s) requestProps 0 requestBits"


subsection \<open>Initialization\<close>

text \<open>A creating call: the handle it writes, its result code, the history extended.\<close>

definition create ::
  "Driver \<Rightarrow> kind \<Rightarrow> info \<Rightarrow> VulkanAppBase \<Rightarrow> handle \<times> VkResult \<times> VulkanAppBase" where
  "create drv k ci s = (out drv s, res drv s, emit (Create k ci (out drv s) (res drv s)) s)"

definition initializeInstance :: "Driver \<Rightarrow> VulkanAppBase \<Rightarrow> fault + VulkanAppBase" where
  "initializeInstance drv s =
     (let s1 = emit (Query EnumerateInstanceExtensionProperties) s;
          s2 = emit (Query EnumerateInstanceExtensionProperties) s1;
          (h, result, s3) = create drv Instance NoInfo s2
      in checkResult result (s3\<lparr>m_instance := h\<rparr>))"

definition selectPhysicalDevice :: "Driver \<Rightarrow> VulkanAppBase \<Rightarrow> fault + VulkanAppBase" where
  "selectPhysicalDevice drv s =
     (let s1 = emit (Query EnumeratePhysicalDevices) s;
          s2 = emit (Query EnumeratePhysicalDevices) s1
      in case physDevs drv of
           [] \<Rightarrow> Inl OutOfBounds
         | d # ds \<Rightarrow>
             Inr ((emit (Query GetPhysicalDeviceMemoryProperties) s2)
                    \<lparr>m_physDev := d, m_physMemProps := memProps drv\<rparr>))"

fun searchGraphicsQueueIndex_loop :: "u32 list \<Rightarrow> nat \<Rightarrow> u32" where
  "searchGraphicsQueueIndex_loop [] i = NO_INDEX"
| "searchGraphicsQueueIndex_loop (queueFlags # props) i =
     (if queueFlags AND VK_QUEUE_GRAPHICS_BIT \<noteq> 0 then of_nat i
      else searchGraphicsQueueIndex_loop props (Suc i))"

definition searchGraphicsQueueIndex :: "Driver \<Rightarrow> VulkanAppBase \<Rightarrow> u32 \<times> VulkanAppBase" where
  "searchGraphicsQueueIndex drv s =
     (let s1 = emit (Query GetPhysicalDeviceQueueFamilyProperties) s;
          s2 = emit (Query GetPhysicalDeviceQueueFamilyProperties) s1
      in (searchGraphicsQueueIndex_loop (queueFamilies drv) 0, s2))"

definition createDevice :: "Driver \<Rightarrow> VulkanAppBase \<Rightarrow> fault + VulkanAppBase" where
  "createDevice drv s =
     (let s1 = emit (Query EnumerateDeviceExtensionProperties) s;
          s2 = emit (Query EnumerateDeviceExtensionProperties) s1;
          (h, result, s3) = create drv Device (DeviceCI (m_graphicsQueueIndex s2)) s2
      in andThen (checkResult result (s3\<lparr>m_device := h\<rparr>))
           (\<lambda>s4. Inr ((emit (Query GetDeviceQueue) s4)\<lparr>m_deviceQueue := out drv s4\<rparr>)))"

definition prepareCommandPool :: "Driver \<Rightarrow> VulkanAppBase \<Rightarrow> fault + VulkanAppBase" where
  "prepareCommandPool drv s =
     (let ci = CommandPoolCI (m_graphicsQueueIndex s)
                 VK_COMMAND_POOL_CREATE_RESET_COMMAND_BUFFER_BIT;
          (h, result, s1) = create drv CommandPool ci s
      in checkResult result (s1\<lparr>m_commandPool := h\<rparr>))"

text \<open>\<open>glfwCreateWindowSurface\<close>, as \<open>initialize\<close> calls it: the result is dropped.\<close>

definition createWindowSurface :: "Driver \<Rightarrow> VulkanAppBase \<Rightarrow> fault + VulkanAppBase" where
  "createWindowSurface drv s =
     (let (h, result, s1) = create drv Surface NoInfo s in Inr (s1\<lparr>m_surface := h\<rparr>))"

fun selectSurfaceFormat_loop ::
  "VkFormat \<Rightarrow> VkSurfaceFormatKHR list \<Rightarrow> VkSurfaceFormatKHR \<Rightarrow> VkSurfaceFormatKHR" where
  "selectSurfaceFormat_loop fmt [] cur = cur"
| "selectSurfaceFormat_loop fmt (f # fs) cur =
     selectSurfaceFormat_loop fmt fs (if format f = fmt then f else cur)"

definition selectSurfaceFormat ::
  "VkFormat \<Rightarrow> Driver \<Rightarrow> VulkanAppBase \<Rightarrow> fault + VulkanAppBase" where
  "selectSurfaceFormat fmt drv s =
     (let s1 = emit (Query GetPhysicalDeviceSurfaceFormatsKHR) s;
          s2 = emit (Query GetPhysicalDeviceSurfaceFormatsKHR) s1
      in Inr (s2\<lparr>m_surfaceFormat :=
                  selectSurfaceFormat_loop fmt (surfaceFormats drv) (m_surfaceFormat s2)\<rparr>))"

text \<open>The two capability queries \<open>initialize\<close> makes between format selection and swapchain.\<close>

definition getSurfaceCapabilities :: "Driver \<Rightarrow> VulkanAppBase \<Rightarrow> fault + VulkanAppBase" where
  "getSurfaceCapabilities drv s =
     (let s1 = (emit (Query GetPhysicalDeviceSurfaceCapabilitiesKHR) s)
                 \<lparr>m_surfaceCaps := surfaceCaps drv\<rparr>
      in Inr (emit (Query GetPhysicalDeviceSurfaceSupportKHR) s1))"

text \<open>
  Lines 304 to 313 of \<open>createSwapchain\<close>: the extent, and whether the window was asked.
  The window's \<open>int\<close> sizes are converted to \<open>uint32_t\<close>.
\<close>

definition createSwapchain_extent ::
  "VkSurfaceCapabilitiesKHR \<Rightarrow> int \<times> int \<Rightarrow> VkExtent2D \<times> bool" where
  "createSwapchain_extent caps win =
     (let extent = currentExtent caps
      in if width extent = NO_INDEX
         then (extent\<lparr>width := word_of_int (fst win), height := word_of_int (snd win)\<rparr>, True)
         else (extent, False))"

definition createSwapchain :: "Driver \<Rightarrow> VulkanAppBase \<Rightarrow> fault + VulkanAppBase" where
  "createSwapchain drv s =
     (let imageCount = max 2 (minImageCount (m_surfaceCaps s));
          (extent, asked) = createSwapchain_extent (m_surfaceCaps s) (windowSize drv);
          s1 = (if asked then emit (Query GetWindowSize) s else s);
          ci = SwapchainCI (m_surface s1) imageCount (m_surfaceFormat s1) extent (m_presentMode s1);
          (h, result, s2) = create drv Swapchain ci s1
      in andThen (checkResult result (s2\<lparr>m_swapchain := h\<rparr>))
           (\<lambda>s3. Inr (s3\<lparr>m_swapchainExtent := extent\<rparr>)))"

definition createDepthBuffer :: "Driver \<Rightarrow> VulkanAppBase \<Rightarrow> fault + VulkanAppBase" where
  "createDepthBuffer drv s =
     (let ci = ImageCI VK_FORMAT_D32_SFLOAT (m_swapchainExtent s)
                 VK_IMAGE_USAGE_DEPTH_STENCIL_ATTACHMENT_BIT;
          (h, result, s1) = create drv Image ci s
      in andThen (checkResult result (s1\<lparr>m_depthBuffer := h\<rparr>))
           (\<lambda>s2. let reqs = memReqs drv;
                     s3 = emit (Query GetImageMemoryRequirements) s2;
                     ai = MemoryAI (mr_size reqs)
                            (getMemoryTypeIndex s3 (memoryTypeBits reqs)
                               VK_MEMORY_PROPERTY_DEVICE_LOCAL_BIT);
                     (m, result2, s4) = create drv DeviceMemory ai s3;
                     s5 = s4\<lparr>m_depthBufferMemory := m\<rparr>
                 in Inr (emit (BindImageMemory (m_depthBuffer s5) (m_depthBufferMemory s5)
                                 (res drv s5)) s5)))"

fun createViews_loop :: "Driver \<Rightarrow> nat list \<Rightarrow> VulkanAppBase \<Rightarrow> fault + VulkanAppBase" where
  "createViews_loop drv [] s = Inr s"
| "createViews_loop drv (i # is) s =
     (let ci = ImageViewCI (m_swapchainImages s ! i) (format (m_surfaceFormat s))
                 VK_IMAGE_ASPECT_COLOR_BIT;
          (h, result, s1) = create drv ImageView ci s
      in andThen (checkResult result (s1\<lparr>m_swapchainViews := (m_swapchainViews s1)[i := h]\<rparr>))
           (createViews_loop drv is))"

definition createViews :: "Driver \<Rightarrow> VulkanAppBase \<Rightarrow> fault + VulkanAppBase" where
  "createViews drv s =
     (let imageCount = unat (swapchainImageCount drv);
          s1 = (emit (Query GetSwapchainImagesKHR) s)
                 \<lparr>m_swapchainImages := resize imageCount (m_swapchainImages s)\<rparr>;
          s2 = (emit (Query GetSwapchainImagesKHR) s1)
                 \<lparr>m_swapchainImages := map (swapchainImage drv) [0..<imageCount]\<rparr>;
          s3 = s2\<lparr>m_swapchainViews := resize imageCount (m_swapchainViews s2)\<rparr>
      in andThen (createViews_loop drv [0..<imageCount] s3)
           (\<lambda>s4. let ci = ImageViewCI (m_depthBuffer s4) VK_FORMAT_D32_SFLOAT
                            VK_IMAGE_ASPECT_DEPTH_BIT;
                     (h, result, s5) = create drv ImageView ci s4
                 in checkResult result (s5\<lparr>m_depthBufferView := h\<rparr>)))"

definition createRenderPass :: "Driver \<Rightarrow> VulkanAppBase \<Rightarrow> fault + VulkanAppBase" where
  "createRenderPass drv s =
     (let ci = RenderPassCI (format (m_surfaceFormat s)) VK_FORMAT_D32_SFLOAT;
          (h, result, s1) = create drv RenderPass ci s
      in checkResult result (s1\<lparr>m_renderPass := h\<rparr>))"

fun createFramebuffer_loop ::
  "Driver \<Rightarrow> handle list \<Rightarrow> VulkanAppBase \<Rightarrow> fault + VulkanAppBase" where
  "createFramebuffer_loop drv [] s = Inr s"
| "createFramebuffer_loop drv (v # vs) s =
     (let ci = FramebufferCI (m_renderPass s) [v, m_depthBufferView s] (m_swapchainExtent s);
          (framebuffer, result, s1) = create drv Framebuffer ci s
      in andThen (checkResult result s1)
           (\<lambda>s2. createFramebuffer_loop drv vs
                   (s2\<lparr>m_framebuffers := m_framebuffers s2 @ [framebuffer]\<rparr>)))"

definition createFramebuffer :: "Driver \<Rightarrow> VulkanAppBase \<Rightarrow> fault + VulkanAppBase" where
  "createFramebuffer drv s =
     createFramebuffer_loop drv (m_swapchainViews s) (s\<lparr>m_framebuffers := []\<rparr>)"

fun prepareCommandBuffers_loop ::
  "Driver \<Rightarrow> nat list \<Rightarrow> VulkanAppBase \<Rightarrow> fault + VulkanAppBase" where
  "prepareCommandBuffers_loop drv [] s = Inr s"
| "prepareCommandBuffers_loop drv (i # is) s =
     (let (h, result, s1) = create drv Fence (FenceCI VK_FENCE_CREATE_SIGNALED_BIT) s
      in andThen (checkResult result (s1\<lparr>m_fences := (m_fences s1)[i := h]\<rparr>))
           (prepareCommandBuffers_loop drv is))"

definition prepareCommandBuffers :: "Driver \<Rightarrow> VulkanAppBase \<Rightarrow> fault + VulkanAppBase" where
  "prepareCommandBuffers drv s =
     (let commandBufferCount = (of_nat (length (m_swapchainViews s)) :: u32);
          n = unat commandBufferCount;
          s1 = s\<lparr>m_commands := resize n (m_commands s)\<rparr>;
          result = res drv s1;
          hs = map (newHandle drv (length (driverCalls s1))) [0..<n];
          s2 = (emit (AllocateCommandBuffers (m_commandPool s1)
                        VK_COMMAND_BUFFER_LEVEL_PRIMARY hs result) s1)
                 \<lparr>m_commands := hs @ drop n (m_commands s1)\<rparr>
      in andThen (checkResult result s2)
           (\<lambda>s3. prepareCommandBuffers_loop drv [0..<n]
                   (s3\<lparr>m_fences := resize n (m_fences s3)\<rparr>)))"

definition prepareSemaphores :: "Driver \<Rightarrow> VulkanAppBase \<Rightarrow> fault + VulkanAppBase" where
  "prepareSemaphores drv s =
     (let (h1, result1, s1) = create drv Semaphore NoInfo s;
          s2 = s1\<lparr>m_renderCompletedSem := h1\<rparr>;
          (h2, result2, s3) = create drv Semaphore NoInfo s2
      in Inr (s3\<lparr>m_presentCompletedSem := h2\<rparr>))"

text \<open>
  \<open>initialize\<close> in the release configuration (\<open>_DEBUG\<close> not defined). The
  application's \<open>prepare\<close> hook is recorded as a call.
\<close>

definition initialize :: "Driver \<Rightarrow> VulkanAppBase \<Rightarrow> fault + VulkanAppBase" where
  "initialize drv s =
     andThen (initializeInstance drv s) (\<lambda>s.
     andThen (selectPhysicalDevice drv s) (\<lambda>s.
     andThen (let (q, s1) = searchGraphicsQueueIndex drv s
              in Inr (s1\<lparr>m_graphicsQueueIndex := q\<rparr>)) (\<lambda>s.
     andThen (createDevice drv s) (\<lambda>s.
     andThen (prepareCommandPool drv s) (\<lambda>s.
     andThen (createWindowSurface drv s) (\<lambda>s.
     andThen (selectSurfaceFormat VK_FORMAT_B8G8R8A8_UNORM drv s) (\<lambda>s.
     andThen (getSurfaceCapabilities drv s) (\<lambda>s.
     andThen (createSwapchain drv s) (\<lambda>s.
     andThen (createDepthBuffer drv s) (\<lambda>s.
     andThen (createViews drv s) (\<lambda>s.
     andThen (createRenderPass drv s) (\<lambda>s.
     andThen (createFramebuffer drv s) (\<lambda>s.
     andThen (prepareCommandBuffers drv s) (\<lambda>s.
     andThen (prepareSemaphores drv s) (\<lambda>s.
     Inr (emit Prepare s))))))))))))))))"

subsection \<open>The frame loop\<close>

text \<open>
  \<open>acquiredIndex\<close> is the value \<open>nextImageIndex\<close> holds after the acquire. Indexing a
  vector past its end is the fault \<open>OutOfBounds\<close>. The drawing callback \<open>makeCommand\<close>
  is recorded with the command buffer it receives and with the value \<open>m_imageIndex\<close>
  holds when it is invoked.
\<close>

definition render :: "Driver \<Rightarrow> VulkanAppBase \<Rightarrow> fault + VulkanAppBase" where
  "render drv s =
     (let nextImageIndex = acquiredIndex drv (length (driverCalls s));
          i = unat nextImageIndex;
          s1 = emit (AcquireNextImage (m_swapchain s) (m_presentCompletedSem s)
                       nextImageIndex (res drv s)) s
      in if \<not> i < length (m_fences s1) then Inl OutOfBounds
         else
           let commandFence = m_fences s1 ! i;
               s2 = emit (WaitForFences commandFence (res drv s1)) s1
           in if \<not> i < length (m_framebuffers s2) then Inl OutOfBounds
              else if \<not> i < length (m_commands s2) then Inl OutOfBounds
              else
                let command = m_commands s2 ! i;
                    s3 = emit (BeginCommandBuffer command (res drv s2)) s2;
                    s4 = emit (CmdBeginRenderPass command (m_renderPass s3)
                                 (m_framebuffers s3 ! i) (m_swapchainExtent s3)) s3;
                    s5 = s4\<lparr>m_imageIndex := nextImageIndex\<rparr>;
                    s6 = emit (MakeCommand command (m_imageIndex s5)) s5;
                    s7 = emit (CmdEndRenderPass command) s6;
                    s8 = emit (EndCommandBuffer command (res drv s7)) s7;
                    s9 = emit (ResetFences commandFence (res drv s8)) s8;
                    s10 = emit (QueueSubmit command (m_presentCompletedSem s9)
                                  (m_renderCompletedSem s9) commandFence (res drv s9)) s9
                in Inr (emit (QueuePresent (m_swapchain s10) nextImageIndex
                                (m_renderCompletedSem s10) (res drv s10)) s10))"

text \<open>The main loop of \<open>wWinMain\<close>, run for \<open>n\<close> frames.\<close>

fun renders :: "Driver \<Rightarrow> nat \<Rightarrow> VulkanAppBase \<Rightarrow> fault + VulkanAppBase" where
  "renders drv 0 s = Inr s"
| "renders drv (Suc n) s = andThen (render drv s) (renders drv n)"

subsection \<open>Teardown\<close>

fun destroyAll :: "kind \<Rightarrow> handle list \<Rightarrow> VulkanAppBase \<Rightarrow> VulkanAppBase" where
  "destroyAll k [] s = s"
| "destroyAll k (v # vs) s = destroyAll k vs (emit (Destroy k v) s)"

text \<open>\<open>terminate\<close> in the release configuration; the \<open>cleanup\<close> hook is recorded as a call.\<close>

definition terminate :: "Driver \<Rightarrow> VulkanAppBase \<Rightarrow> VulkanAppBase" where
  "terminate drv s =
     (let s1 = emit (DeviceWaitIdle (res drv s)) s;
          s2 = emit Cleanup s1;
          s3 = (emit (FreeCommandBuffers (m_commandPool s2) (m_commands s2)) s2)
                 \<lparr>m_commands := []\<rparr>;
          s4 = emit (Destroy RenderPass (m_renderPass s3)) s3;
          s5 = destroyAll Framebuffer (m_framebuffers s4) s4;
          s6 = s5\<lparr>m_swapchainImages := []\<rparr>;
          s7 = emit (Destroy Swapchain (m_swapchain s6)) s6;
          s8 = (destroyAll Fence (m_fences s7) s7)\<lparr>m_fences := []\<rparr>;
          s9 = emit (Destroy Semaphore (m_presentCompletedSem s8)) s8;
          s10 = emit (Destroy Semaphore (m_renderCompletedSem s9)) s9;
          s11 = emit (Destroy CommandPool (m_commandPool s10)) s10;
          s12 = emit (Destroy Surface (m_surface s11)) s11;
          s13 = emit (Destroy Device (m_device s12)) s12
      in emit (Destroy Instance (m_instance s13)) s13)"

text \<open>\<open>wWinMain\<close>: construct, initialize, render \<open>n\<close> frames, terminate.\<close>

definition session :: "Driver \<Rightarrow> nat \<Rightarrow> VulkanAppBase \<Rightarrow> fault + VulkanAppBase" where
  "session drv n raw =
     andThen (initialize drv (VulkanAppBase_ctor raw)) (\<lambda>s.
     andThen (renders drv n s) (\<lambda>s. Inr (terminate drv s)))"


section \<open>Properties stated in the specification\<close>

text \<open>
  Memory type \<open>j\<close> satisfies a request: its bit is set in the requirements mask and
  its property flags include every requested flag.
\<close>

definition memoryTypeMatches ::
  "VkPhysicalDeviceMemoryProperties \<Rightarrow> u32 \<Rightarrow> u32 \<Rightarrow> nat \<Rightarrow> bool" where
  "memoryTypeMatches mp requestBits requestProps j =
     (bit requestBits j \<and> propertyFlags (memoryTypes mp ! j) AND requestProps = requestProps)"

text \<open>
  The calls of one frame in the order the specification gives them, for the image index
  the acquire answers; result codes are those the driver gives at each position.
\<close>

definition frameCalls :: "Driver \<Rightarrow> VulkanAppBase \<Rightarrow> event list" where
  "frameCalls drv s =
     (let n = length (driverCalls s);
          idx = acquiredIndex drv n;
          fence = m_fences s ! unat idx;
          command = m_commands s ! unat idx
      in [AcquireNextImage (m_swapchain s) (m_presentCompletedSem s) idx (vkResult drv n),
          WaitForFences fence (vkResult drv (n + 1)),
          BeginCommandBuffer command (vkResult drv (n + 2)),
          CmdBeginRenderPass command (m_renderPass s) (m_framebuffers s ! unat idx)
            (m_swapchainExtent s),
          MakeCommand command idx,
          CmdEndRenderPass command,
          EndCommandBuffer command (vkResult drv (n + 6)),
          ResetFences fence (vkResult drv (n + 7)),
          QueueSubmit command (m_presentCompletedSem s) (m_renderCompletedSem s) fence
            (vkResult drv (n + 8)),
          QueuePresent (m_swapchain s) idx (m_renderCompletedSem s) (vkResult drv (n + 9))])"

subsection \<open>Calls of the initialization phase\<close>

text \<open>
  What holds of every call recorded by an \<open>initialize\<close> that returns: it is a query, a
  creation, the command buffer allocation, the memory bind or the \<open>prepare\<close> hook; a
  creation or allocation whose result goes through \<open>checkResult\<close> has succeeded, and a
  fence is created with exactly the signaled flag.
\<close>

fun initEvent :: "event \<Rightarrow> bool" where
  "initEvent (Create k ci h r) =
     ((k \<in> {Instance, Device, CommandPool, Swapchain, Image, ImageView, RenderPass,
             Framebuffer, Fence} \<longrightarrow> r = VK_SUCCESS)
      \<and> (k = Fence \<longrightarrow> ci = FenceCI VK_FENCE_CREATE_SIGNALED_BIT))"
| "initEvent (AllocateCommandBuffers p l hs r) = (r = VK_SUCCESS)"
| "initEvent (Query q) = True"
| "initEvent (BindImageMemory i m r) = True"
| "initEvent Prepare = True"
| "initEvent _ = False"

text \<open>From \<open>s\<close> to \<open>s'\<close> the history grew by the calls \<open>es\<close>, all of that kind.\<close>

definition initStep :: "VulkanAppBase \<Rightarrow> VulkanAppBase \<Rightarrow> event list \<Rightarrow> bool" where
  "initStep s s' es \<longleftrightarrow> driverCalls s' = driverCalls s @ es \<and> list_all initEvent es"

text \<open>The per-image arrays of the application object.\<close>

definition tracked ::
  "VulkanAppBase \<Rightarrow> handle list \<times> handle list \<times> handle list \<times> handle list \<times> handle list" where
  "tracked s =
     (m_swapchainImages s, m_swapchainViews s, m_framebuffers s, m_commands s, m_fences s)"

subsection \<open>Fences along a history\<close>

text \<open>
  Reading a history from its start: the fences known to be signaled (created with the
  signaled flag, or waited for, and not reset since), the fences waited for so far, and
  whether every first wait on a fence found it signaled, so that it returned at once.
\<close>

fun createdSignaled :: "info \<Rightarrow> bool" where
  "createdSignaled (FenceCI flags) = (flags AND VK_FENCE_CREATE_SIGNALED_BIT \<noteq> 0)"
| "createdSignaled _ = False"

definition fenceStep ::
  "handle list \<times> handle list \<times> bool \<Rightarrow> event \<Rightarrow> handle list \<times> handle list \<times> bool" where
  "fenceStep st e =
     (case st of (signaled, waited, ok) \<Rightarrow>
        (case e of
           Create k ci f r \<Rightarrow>
             (if k = Fence
              then (if createdSignaled ci then (f # signaled, waited, ok)
                    else (removeAll f signaled, waited, ok))
              else st)
         | WaitForFences f r \<Rightarrow>
             (f # signaled, f # waited, ok \<and> (f \<in> set waited \<or> f \<in> set signaled))
         | ResetFences f r \<Rightarrow> (removeAll f signaled, waited, ok)
         | _ \<Rightarrow> st))"

definition firstWaitsDoNotBlock :: "event list \<Rightarrow> bool" where
  "firstWaitsDoNotBlock es = snd (snd (foldl fenceStep ([], [], True) es))"

text \<open>The calls a frame makes.\<close>

fun frameEvent :: "event \<Rightarrow> bool" where
  "frameEvent (AcquireNextImage sw sem idx r) = True"
| "frameEvent (WaitForFences f r) = True"
| "frameEvent (BeginCommandBuffer c r) = True"
| "frameEvent (CmdBeginRenderPass c rp fb ext) = True"
| "frameEvent (MakeCommand c idx) = True"
| "frameEvent (CmdEndRenderPass c) = True"
| "frameEvent (EndCommandBuffer c r) = True"
| "frameEvent (ResetFences f r) = True"
| "frameEvent (QueueSubmit c w sg f r) = True"
| "frameEvent (QueuePresent sw idx w r) = True"
| "frameEvent _ = False"

subsection \<open>What a history makes\<close>

text \<open>
  The handles a history creates of one kind, and the command buffers it allocates at one
  level, each in the order of the calls. A history is \<open>quiet\<close> when it makes no
  framebuffer, no fence and no command buffer.
\<close>

fun createdBy :: "kind \<Rightarrow> event \<Rightarrow> handle list" where
  "createdBy k (Create k' ci h r) = (if k' = k then [h] else [])"
| "createdBy k _ = []"

definition created :: "kind \<Rightarrow> event list \<Rightarrow> handle list" where
  "created k es = concat (map (createdBy k) es)"

fun allocatedBy :: "int \<Rightarrow> event \<Rightarrow> handle list" where
  "allocatedBy level (AllocateCommandBuffers p l hs r) = (if l = level then hs else [])"
| "allocatedBy level _ = []"

definition allocated :: "int \<Rightarrow> event list \<Rightarrow> handle list" where
  "allocated level es = concat (map (allocatedBy level) es)"

fun allocatesNone :: "event \<Rightarrow> bool" where
  "allocatesNone (AllocateCommandBuffers p l hs r) = (hs = [])"
| "allocatesNone _ = True"

definition quiet :: "event list \<Rightarrow> bool" where
  "quiet es \<longleftrightarrow>
     created Framebuffer es = [] \<and> created Fence es = [] \<and> list_all allocatesNone es"

subsection \<open>Result codes\<close>

text \<open>
  The calls whose result code the source hands to \<open>checkResult\<close>, and the result code
  a recorded call returned.
\<close>

fun checkedCall :: "event \<Rightarrow> bool" where
  "checkedCall (Create k ci h r) =
     (k \<in> {Instance, Device, CommandPool, Swapchain, Image, ImageView, RenderPass,
            Framebuffer, Fence})"
| "checkedCall (AllocateCommandBuffers p l hs r) = True"
| "checkedCall _ = False"

fun resultCode :: "event \<Rightarrow> VkResult option" where
  "resultCode (Create k ci h r) = Some r"
| "resultCode (AllocateCommandBuffers p l hs r) = Some r"
| "resultCode (BindImageMemory i m r) = Some r"
| "resultCode (DeviceWaitIdle r) = Some r"
| "resultCode (AcquireNextImage sw sem idx r) = Some r"
| "resultCode (WaitForFences f r) = Some r"
| "resultCode (BeginCommandBuffer c r) = Some r"
| "resultCode (EndCommandBuffer c r) = Some r"
| "resultCode (ResetFences f r) = Some r"
| "resultCode (QueueSubmit c w sg f r) = Some r"
| "resultCode (QueuePresent sw idx w r) = Some r"
| "resultCode _ = None"

subsection \<open>Concrete inputs\<close>

text \<open>
  A zero-filled application object, a driver that answers every call with success and
  reports three swapchain images, and some capability snapshots. \<open>memoryTypes32\<close>
  fills the array of memory types up to its 32 entries.
\<close>

definition memoryTypes32 :: "VkMemoryType list \<Rightarrow> VkMemoryType list" where
  "memoryTypes32 ts = ts @ replicate (32 - length ts) \<lparr>propertyFlags = 0, heapIndex = 0\<rparr>"

definition blank :: VulkanAppBase where
  "blank = \<lparr>m_instance = 0, m_physDev = 0,
     m_physMemProps = \<lparr>memoryTypeCount = 0, memoryTypes = memoryTypes32 []\<rparr>,
     m_graphicsQueueIndex = 0, m_device = 0, m_deviceQueue = 0, m_commandPool = 0,
     m_surface = 0, m_surfaceFormat = \<lparr>format = 0, colorSpace = 0\<rparr>,
     m_surfaceCaps = \<lparr>minImageCount = 0, currentExtent = \<lparr>width = 0, height = 0\<rparr>,
                        currentTransform = 0\<rparr>,
     m_presentMode = 0, m_swapchain = 0, m_swapchainExtent = \<lparr>width = 0, height = 0\<rparr>,
     m_swapchainImages = [], m_swapchainViews = [], m_depthBuffer = 0,
     m_depthBufferMemory = 0, m_depthBufferView = 0, m_renderPass = 0,
     m_framebuffers = [], m_commands = [], m_fences = [],
     m_renderCompletedSem = 0, m_presentCompletedSem = 0, m_imageIndex = 0,
     driverCalls = []\<rparr>"

definition demoDriver :: Driver where
  "demoDriver = \<lparr>vkResult = (\<lambda>n. VK_SUCCESS),
     newHandle = (\<lambda>n j. of_nat (100 + 10 * n + j)),
     acquiredIndex = (\<lambda>n. 1),
     physDevs = [7],
     memProps = \<lparr>memoryTypeCount = 2,
                  memoryTypes = memoryTypes32 [\<lparr>propertyFlags = 6, heapIndex = 1\<rparr>,
                                               \<lparr>propertyFlags = 1, heapIndex = 0\<rparr>]\<rparr>,
     queueFamilies = [1],
     surfaceFormats = [\<lparr>format = 44, colorSpace = 0\<rparr>,
                       \<lparr>format = 44, colorSpace = 1000104002\<rparr>],
     surfaceCaps = \<lparr>minImageCount = 2, currentExtent = \<lparr>width = 640, height = 480\<rparr>,
                     currentTransform = 1\<rparr>,
     windowSize = (640, 480),
     memReqs = \<lparr>mr_size = 1228800, memoryTypeBits = 3\<rparr>,
     swapchainImageCount = 3,
     swapchainImage = (\<lambda>i. of_nat (50 + i))\<rparr>"

definition frameState :: VulkanAppBase where
  "frameState = blank\<lparr>m_swapchain := 9, m_framebuffers := [21, 22], m_commands := [11, 12],
                       m_fences := [31, 32]\<rparr>"

definition hostOnlyState :: VulkanAppBase where
  "hostOnlyState =
     blank\<lparr>m_physMemProps :=
             \<lparr>memoryTypeCount = 1,
              memoryTypes = memoryTypes32 [\<lparr>propertyFlags = 6, heapIndex = 0\<rparr>]\<rparr>\<rparr>"

definition deviceLocalState :: VulkanAppBase where
  "deviceLocalState = blank\<lparr>m_physMemProps := memProps demoDriver\<rparr>"


definition wideCaps :: VkSurfaceCapabilitiesKHR where
  "wideCaps =
     \<lparr>minImageCount = 2, currentExtent = \<lparr>width = 800, height = 600\<rparr>,
      currentTransform = 1\<rparr>"

definition undefinedCaps :: VkSurfaceCapabilitiesKHR where
  "undefinedCaps =
     \<lparr>minImageCount = 2, currentExtent = \<lparr>width = 0xFFFFFFFF, height = 0xFFFFFFFF\<rparr>,
      currentTransform = 1\<rparr>"


text \<open>A driver that answers every call with \<open>VK_ERROR_DEVICE_LOST\<close>.\<close>

definition lostDriver :: Driver where
  "lostDriver = demoDriver\<lparr>vkResult := (\<lambda>n. VK_ERROR_DEVICE_LOST)\<rparr>"


section \<open>Basic facts\<close>

lemma andThen_simps [simp]: "andThen (Inr x) f = f x" "andThen (Inl e) g = Inl e"
  by (simp_all add: andThen_def)

lemma andThen_Inr_iff: "andThen m f = Inr y \<longleftrightarrow> (\<exists>x. m = Inr x \<and> f x = Inr y)"
  by (cases m) simp_all

lemma checkResult_Inr_iff: "checkResult r s = Inr s' \<longleftrightarrow> r = VK_SUCCESS \<and> s' = s"
  by (auto simp: checkResult_def)


lemma emit_fields [simp]:
  "driverCalls (emit e s) = driverCalls s @ [e]"
  "m_instance (emit e s) = m_instance s"
  "m_physDev (emit e s) = m_physDev s"
  "m_physMemProps (emit e s) = m_physMemProps s"
  "m_graphicsQueueIndex (emit e s) = m_graphicsQueueIndex s"
  "m_device (emit e s) = m_device s"
  "m_deviceQueue (emit e s) = m_deviceQueue s"
  "m_commandPool (emit e s) = m_commandPool s"
  "m_surface (emit e s) = m_surface s"
  "m_surfaceFormat (emit e s) = m_surfaceFormat s"
  "m_surfaceCaps (emit e s) = m_surfaceCaps s"
  "m_presentMode (emit e s) = m_presentMode s"
  "m_swapchain (emit e s) = m_swapchain s"
  "m_swapchainExtent (emit e s) = m_swapchainExtent s"
  "m_swapchainImages (emit e s) = m_swapchainImages s"
  "m_swapchainViews (emit e s) = m_swapchainViews s"
  "m_depthBuffer (emit e s) = m_depthBuffer s"
  "m_depthBufferMemory (emit e s) = m_depthBufferMemory s"
  "m_depthBufferView (emit e s) = m_depthBufferView s"
  "m_renderPass (emit e s) = m_renderPass s"
  "m_framebuffers (emit e s) = m_framebuffers s"
  "m_commands (emit e s) = m_commands s"
  "m_fences (emit e s) = m_fences s"
  "m_renderCompletedSem (emit e s) = m_renderCompletedSem s"
  "m_presentCompletedSem (emit e s) = m_presentCompletedSem s"
  "m_imageIndex (emit e s) = m_imageIndex s"
  by (simp_all add: emit_def)

lemma render_eq:
  "render drv s =
     (if unat (acquiredIndex drv (length (driverCalls s))) < length (m_fences s)
       \<and> unat (acquiredIndex drv (length (driverCalls s))) < length (m_framebuffers s)
       \<and> unat (acquiredIndex drv (length (driverCalls s))) < length (m_commands s)
      then Inr (s\<lparr>m_imageIndex := acquiredIndex drv (length (driverCalls s)),
            driverCalls := driverCalls s @ frameCalls drv s\<rparr>)
      else Inl OutOfBounds)"
  apply (simp only: render_def Let_def res_def frameCalls_def)
  apply (simp only: emit_fields)
  apply (simp only: length_append list.size)
  apply (simp only: emit_def)
  apply (simp add: numeral_eq_Suc)
  done

lemma createSwapchain_eq:
  "createSwapchain drv s =
     (let extent = fst (createSwapchain_extent (m_surfaceCaps s) (windowSize drv));
          pre = (if snd (createSwapchain_extent (m_surfaceCaps s) (windowSize drv))
                 then [Query GetWindowSize] else []);
          n = length (driverCalls s) + length pre
      in if vkResult drv n \<noteq> VK_SUCCESS then Inl DebugBreak
         else Inr (s\<lparr>m_swapchain := newHandle drv n 0, m_swapchainExtent := extent,
                driverCalls := driverCalls s @ pre @
                  [Create Swapchain
                     (SwapchainCI (m_surface s) (max 2 (minImageCount (m_surfaceCaps s)))
                        (m_surfaceFormat s) extent (m_presentMode s))
                     (newHandle drv n 0) (vkResult drv n)]\<rparr>))"
  apply (simp only: createSwapchain_def Let_def res_def out_def create_def split_def fst_conv snd_conv
      checkResult_def)
  apply (cases "snd (createSwapchain_extent (m_surfaceCaps s) (windowSize drv))")
   apply (simp_all only: if_True if_False emit_fields length_append list.size)
   apply (simp_all add: emit_def)
  done

lemma selectSurfaceFormat_loop_last:
  "selectSurfaceFormat_loop fmt fs cur = last (cur # filter (\<lambda>f. format f = fmt) fs)"
  by (induction fs arbitrary: cur) auto


lemma and_one_test: "(w AND 1 \<noteq> 0) = bit w 0" for w :: u32
  by (simp add: and_one_eq bit_0 mod_2_eq_odd)

lemma bit_drop_bit_0: "bit (drop_bit n w) 0 = bit w n" for w :: u32
  by (simp add: bit_drop_bit_eq)

lemma unat_succ_below: "i < c \<Longrightarrow> unat (i + 1) = Suc (unat i)" for i c :: u32
  by unat_arith

lemma below_not_NO_INDEX: "i < c \<Longrightarrow> i \<noteq> NO_INDEX" for i c :: u32
  using word_n1_ge [of c] by (auto simp: NO_INDEX_def)

lemma getMemoryTypeIndex_loop_spec:
  "requestBits = drop_bit (unat i) bits \<Longrightarrow>
   (if getMemoryTypeIndex_loop mp props i requestBits = NO_INDEX
    then (\<forall>j. unat i \<le> j \<and> j < unat (memoryTypeCount mp) \<longrightarrow> \<not> memoryTypeMatches mp bits props j)
    else unat i \<le> unat (getMemoryTypeIndex_loop mp props i requestBits)
       \<and> getMemoryTypeIndex_loop mp props i requestBits < memoryTypeCount mp
       \<and> memoryTypeMatches mp bits props (unat (getMemoryTypeIndex_loop mp props i requestBits))
       \<and> (\<forall>j. unat i \<le> j \<and> j < unat (getMemoryTypeIndex_loop mp props i requestBits)
              \<longrightarrow> \<not> memoryTypeMatches mp bits props j))"
proof (induction mp props i requestBits rule: getMemoryTypeIndex_loop.induct)
  case (1 mp requestProps i requestBits)
  let ?here = "requestBits AND 1 \<noteq> 0
      \<and> propertyFlags (memoryTypes mp ! unat i) AND requestProps = requestProps"
  have here: "?here = memoryTypeMatches mp bits requestProps (unat i)"
    using "1.prems" by (simp add: memoryTypeMatches_def and_one_test bit_drop_bit_0)
  show ?case
  proof (cases "i < memoryTypeCount mp")
    case False
    then have "unat (memoryTypeCount mp) \<le> unat i" by (simp add: word_less_nat_alt)
    then have "\<And>j. unat i \<le> j \<Longrightarrow> \<not> j < unat (memoryTypeCount mp)" by arith
    with False show ?thesis
      by (subst getMemoryTypeIndex_loop.simps, subst getMemoryTypeIndex_loop.simps)
        (auto simp del: getMemoryTypeIndex_loop.simps)
  next
    case lt: True
    show ?thesis
    proof (cases ?here)
      case True
      then have "getMemoryTypeIndex_loop mp requestProps i requestBits = i"
        using lt
        by (subst getMemoryTypeIndex_loop.simps) (simp del: getMemoryTypeIndex_loop.simps)
      with lt True here show ?thesis
        by (auto simp: below_not_NO_INDEX simp del: getMemoryTypeIndex_loop.simps)
    next
      case False
      have suc: "unat (i + 1) = Suc (unat i)" using lt by (rule unat_succ_below)
      have next_bits: "drop_bit 1 requestBits = drop_bit (unat (i + 1)) bits"
        using "1.prems" suc by (simp add: drop_bit_drop_bit)
      have eq: "getMemoryTypeIndex_loop mp requestProps i requestBits =
            getMemoryTypeIndex_loop mp requestProps (i + 1) (drop_bit 1 requestBits)"
        using lt False
        by (subst getMemoryTypeIndex_loop.simps) (auto simp del: getMemoryTypeIndex_loop.simps)
      let ?r = "getMemoryTypeIndex_loop mp requestProps (i + 1) (drop_bit 1 requestBits)"
      have nomatch: "\<not> memoryTypeMatches mp bits requestProps (unat i)"
        using False here by simp
      have ext: "\<not> memoryTypeMatches mp bits requestProps j \<or> Suc (unat i) \<le> j"
        if "unat i \<le> j" for j
        using that nomatch by (cases "j = unat i") auto
      have ih: "if ?r = NO_INDEX
          then (\<forall>j. Suc (unat i) \<le> j \<and> j < unat (memoryTypeCount mp)
                  \<longrightarrow> \<not> memoryTypeMatches mp bits requestProps j)
          else Suc (unat i) \<le> unat ?r \<and> ?r < memoryTypeCount mp
             \<and> memoryTypeMatches mp bits requestProps (unat ?r)
             \<and> (\<forall>j. Suc (unat i) \<le> j \<and> j < unat ?r
                    \<longrightarrow> \<not> memoryTypeMatches mp bits requestProps j)"
        using "1.IH"[OF lt False next_bits] unfolding suc .
      show ?thesis
      proof (cases "?r = NO_INDEX")
        case True
        from ih have "\<forall>j. Suc (unat i) \<le> j \<and> j < unat (memoryTypeCount mp)
                  \<longrightarrow> \<not> memoryTypeMatches mp bits requestProps j"
          unfolding if_P [OF True] .
        with ext have "\<forall>j. unat i \<le> j \<and> j < unat (memoryTypeCount mp)
                  \<longrightarrow> \<not> memoryTypeMatches mp bits requestProps j"
          by blast
        then show ?thesis unfolding eq if_P [OF True] .
      next
        case False
        from ih have "Suc (unat i) \<le> unat ?r \<and> ?r < memoryTypeCount mp
             \<and> memoryTypeMatches mp bits requestProps (unat ?r)
             \<and> (\<forall>j. Suc (unat i) \<le> j \<and> j < unat ?r
                    \<longrightarrow> \<not> memoryTypeMatches mp bits requestProps j)"
          unfolding if_not_P [OF False] .
        then have a: "Suc (unat i) \<le> unat ?r" and b: "?r < memoryTypeCount mp"
          and c: "memoryTypeMatches mp bits requestProps (unat ?r)"
          and d: "\<forall>j. Suc (unat i) \<le> j \<and> j < unat ?r
                    \<longrightarrow> \<not> memoryTypeMatches mp bits requestProps j"
          by blast+
        from d ext have d': "\<forall>j. unat i \<le> j \<and> j < unat ?r
                    \<longrightarrow> \<not> memoryTypeMatches mp bits requestProps j"
          by blast
        from a have a': "unat i \<le> unat ?r" by arith
        from a' b c d' show ?thesis unfolding eq if_not_P [OF False] by blast
      qed
    qed
  qed
qed


section \<open>The claims\<close>

lemma selectSurfaceFormat_eq:
  "selectSurfaceFormat fmt drv s =
     Inr (s\<lparr>m_surfaceFormat :=
               last (m_surfaceFormat s # filter (\<lambda>f. format f = fmt) (surfaceFormats drv)),
            driverCalls := driverCalls s @ [Query GetPhysicalDeviceSurfaceFormatsKHR,
                                            Query GetPhysicalDeviceSurfaceFormatsKHR]\<rparr>)"
  apply (simp only: selectSurfaceFormat_def Let_def emit_fields selectSurfaceFormat_loop_last)
  apply (simp add: emit_def)
  done

text \<open>
  Claim C2, as the code has it: \<open>selectSurfaceFormat\<close> never fails, and leaves in
  \<open>m_surfaceFormat\<close> the last enumerated format whose \<open>format\<close> equals the
  preferred one (the loop has no \<open>break\<close>); when no enumerated format matches, the
  field keeps its prior value.
\<close>
theorem selectSurfaceFormat_last_match:
  "\<exists>s'. selectSurfaceFormat fmt drv s = Inr s'
     \<and> m_surfaceFormat s' =
         last (m_surfaceFormat s # filter (\<lambda>f. format f = fmt) (surfaceFormats drv))"
  by (simp add: selectSurfaceFormat_eq)

theorem selectSurfaceFormat_last_match_witness:
  "\<exists>s'. selectSurfaceFormat VK_FORMAT_B8G8R8A8_UNORM demoDriver blank = Inr s'
     \<and> m_surfaceFormat s' = \<lparr>format = 44, colorSpace = 1000104002\<rparr>"
  using selectSurfaceFormat_last_match [of VK_FORMAT_B8G8R8A8_UNORM demoDriver blank]
  by (simp add: demoDriver_def blank_def VK_FORMAT_B8G8R8A8_UNORM_def)

theorem selectSurfaceFormat_first_match_counterexample:
  "surfaceFormats demoDriver =
     [\<lparr>format = 44, colorSpace = 0\<rparr>, \<lparr>format = 44, colorSpace = 1000104002\<rparr>]
   \<and> map_sum id m_surfaceFormat
       (selectSurfaceFormat VK_FORMAT_B8G8R8A8_UNORM demoDriver blank)
     = Inr \<lparr>format = 44, colorSpace = 1000104002\<rparr>"
  by (simp add: selectSurfaceFormat_eq demoDriver_def blank_def VK_FORMAT_B8G8R8A8_UNORM_def)

text \<open>
  Claim C10: a render call that completes changes no member except \<open>m_imageIndex\<close>,
  which holds the acquired index when the drawing callback is invoked; the swapchain
  handle, extent, surface format and the framebuffer, command buffer and fence arrays
  are the same after the call.
\<close>
theorem render_mutates_only_imageIndex:
  "render drv s = Inr s' \<Longrightarrow>
     s' = s\<lparr>m_imageIndex := acquiredIndex drv (length (driverCalls s)),
            driverCalls := driverCalls s'\<rparr>
   \<and> m_swapchain s' = m_swapchain s \<and> m_swapchainExtent s' = m_swapchainExtent s
   \<and> m_surfaceFormat s' = m_surfaceFormat s \<and> m_framebuffers s' = m_framebuffers s
   \<and> m_commands s' = m_commands s \<and> m_fences s' = m_fences s
   \<and> MakeCommand (m_commands s ! unat (acquiredIndex drv (length (driverCalls s))))
        (acquiredIndex drv (length (driverCalls s)))
        \<in> set (drop (length (driverCalls s)) (driverCalls s'))
   \<and> (\<forall>c x. MakeCommand c x \<in> set (drop (length (driverCalls s)) (driverCalls s'))
         \<longrightarrow> x = acquiredIndex drv (length (driverCalls s)))"
  by (simp add: render_eq split: if_splits) (auto simp: frameCalls_def Let_def)

theorem render_mutates_only_imageIndex_witness:
  "\<exists>s'. render demoDriver frameState = Inr s'
     \<and> s' = frameState\<lparr>m_imageIndex := 1, driverCalls := driverCalls s'\<rparr>
     \<and> m_fences s' = [31, 32]"
proof -
  have h: "render demoDriver frameState =
      Inr (frameState\<lparr>m_imageIndex := 1,
             driverCalls := driverCalls frameState @ frameCalls demoDriver frameState\<rparr>)"
    by (simp add: render_eq demoDriver_def frameState_def blank_def)
  from render_mutates_only_imageIndex [OF h] show ?thesis
    using h by (simp add: demoDriver_def frameState_def blank_def)
qed





lemma NO_INDEX_eq: "NO_INDEX = 0xFFFFFFFF"
  by (simp add: NO_INDEX_def)

text \<open>
  Claim C7: on a capability snapshot as the surface reports it (width and height of
  the current extent are \<open>0xFFFFFFFF\<close> together or not at all), and with a
  swapchain creation that succeeds, \<open>createSwapchain\<close> returns; the swapchain extent it
  stores is the one it passes to the creation call; with the extent \<open>0xFFFFFFFF\<close> in
  both dimensions and a window of 640 by 480 it is 640 by 480; otherwise it is the
  capability's current extent, unchanged.
\<close>
theorem createSwapchain_extent_fallback:
  assumes "width (currentExtent (m_surfaceCaps s)) = 0xFFFFFFFF
             \<longleftrightarrow> height (currentExtent (m_surfaceCaps s)) = 0xFFFFFFFF"
    and "vkResult drv (length (driverCalls s) +
           (if width (currentExtent (m_surfaceCaps s)) = 0xFFFFFFFF then 1 else 0)) = VK_SUCCESS"
  shows "\<exists>s'. createSwapchain drv s = Inr s'
     \<and> (\<exists>h. last (driverCalls s') =
           Create Swapchain
             (SwapchainCI (m_surface s) (max 2 (minImageCount (m_surfaceCaps s)))
                (m_surfaceFormat s) (m_swapchainExtent s') (m_presentMode s)) h VK_SUCCESS)
     \<and> (currentExtent (m_surfaceCaps s) = \<lparr>width = 0xFFFFFFFF, height = 0xFFFFFFFF\<rparr>
          \<and> windowSize drv = (640, 480)
          \<longrightarrow> m_swapchainExtent s' = \<lparr>width = 640, height = 480\<rparr>)
     \<and> (currentExtent (m_surfaceCaps s) \<noteq> \<lparr>width = 0xFFFFFFFF, height = 0xFFFFFFFF\<rparr>
          \<longrightarrow> m_swapchainExtent s' = currentExtent (m_surfaceCaps s))"
proof (cases "width (currentExtent (m_surfaceCaps s)) = 0xFFFFFFFF")
  case True
  with assms have hgt: "height (currentExtent (m_surfaceCaps s)) = 0xFFFFFFFF"
    and ok: "vkResult drv (Suc (length (driverCalls s))) = VK_SUCCESS" by simp_all
  from True hgt have both:
    "currentExtent (m_surfaceCaps s) = \<lparr>width = 0xFFFFFFFF, height = 0xFFFFFFFF\<rparr>"
    by (cases "currentExtent (m_surfaceCaps s)") simp
  from both ok show ?thesis
    by (simp add: createSwapchain_eq Let_def createSwapchain_extent_def NO_INDEX_eq)
next
  case False
  with assms have ok: "vkResult drv (length (driverCalls s)) = VK_SUCCESS" by simp
  from False have neq:
    "currentExtent (m_surfaceCaps s) \<noteq> \<lparr>width = 0xFFFFFFFF, height = 0xFFFFFFFF\<rparr>"
    by (cases "currentExtent (m_surfaceCaps s)") auto
  from False ok neq show ?thesis
    by (simp add: createSwapchain_eq Let_def createSwapchain_extent_def NO_INDEX_eq)
qed

theorem createSwapchain_extent_fallback_witness:
  "(\<exists>s'. createSwapchain demoDriver (blank\<lparr>m_surfaceCaps := undefinedCaps\<rparr>) = Inr s'
      \<and> m_swapchainExtent s' = \<lparr>width = 640, height = 480\<rparr>
      \<and> (\<exists>h. last (driverCalls s') =
            Create Swapchain
              (SwapchainCI 0 2 \<lparr>format = 0, colorSpace = 0\<rparr> \<lparr>width = 640, height = 480\<rparr> 0)
              h VK_SUCCESS))
   \<and> (\<exists>s'. createSwapchain demoDriver (blank\<lparr>m_surfaceCaps := wideCaps\<rparr>) = Inr s'
      \<and> windowSize demoDriver = (640, 480)
      \<and> m_swapchainExtent s' = \<lparr>width = 800, height = 600\<rparr>
      \<and> (\<exists>h. last (driverCalls s') =
            Create Swapchain
              (SwapchainCI 0 2 \<lparr>format = 0, colorSpace = 0\<rparr> \<lparr>width = 800, height = 600\<rparr> 0)
              h VK_SUCCESS))"
proof -
  have a: "\<exists>s'. createSwapchain demoDriver (blank\<lparr>m_surfaceCaps := undefinedCaps\<rparr>) = Inr s'
      \<and> m_swapchainExtent s' = \<lparr>width = 640, height = 480\<rparr>
      \<and> (\<exists>h. last (driverCalls s') =
            Create Swapchain
              (SwapchainCI 0 2 \<lparr>format = 0, colorSpace = 0\<rparr> \<lparr>width = 640, height = 480\<rparr> 0)
              h VK_SUCCESS)"
    using createSwapchain_extent_fallback [of "blank\<lparr>m_surfaceCaps := undefinedCaps\<rparr>" demoDriver]
    by (auto simp: blank_def undefinedCaps_def demoDriver_def)
  have b: "\<exists>s'. createSwapchain demoDriver (blank\<lparr>m_surfaceCaps := wideCaps\<rparr>) = Inr s'
      \<and> windowSize demoDriver = (640, 480)
      \<and> m_swapchainExtent s' = \<lparr>width = 800, height = 600\<rparr>
      \<and> (\<exists>h. last (driverCalls s') =
            Create Swapchain
              (SwapchainCI 0 2 \<lparr>format = 0, colorSpace = 0\<rparr> \<lparr>width = 800, height = 600\<rparr> 0)
              h VK_SUCCESS)"
    using createSwapchain_extent_fallback [of "blank\<lparr>m_surfaceCaps := wideCaps\<rparr>" demoDriver]
    by (auto simp: blank_def wideCaps_def demoDriver_def)
  from a b show ?thesis by (rule conjI)
qed

lemma andThen_checkResult:
  "andThen (checkResult r s) f = (if r \<noteq> VK_SUCCESS then Inl DebugBreak else f s)"
  by (simp add: checkResult_def)

lemmas run_defs = Let_def create_def split_def fst_conv snd_conv res_def out_def
  andThen_checkResult emit_fields length_append list.size

lemma getMemoryTypeIndex_emit [simp]:
  "getMemoryTypeIndex (emit e s) = getMemoryTypeIndex s"
  by (rule ext)+ (simp add: getMemoryTypeIndex_def)

lemma getMemoryTypeIndex_upd [simp]:
  "getMemoryTypeIndex (s\<lparr>m_depthBuffer := h\<rparr>) = getMemoryTypeIndex s"
  by (rule ext)+ (simp add: getMemoryTypeIndex_def)

lemma createDepthBuffer_eq:
  "createDepthBuffer drv s =
     (let n = length (driverCalls s);
          image = newHandle drv n 0;
          memory = newHandle drv (n + 2) 0
      in if vkResult drv n \<noteq> VK_SUCCESS then Inl DebugBreak
         else Inr (s\<lparr>m_depthBuffer := image, m_depthBufferMemory := memory,
                driverCalls := driverCalls s @
                  [Create Image
                     (ImageCI VK_FORMAT_D32_SFLOAT (m_swapchainExtent s)
                        VK_IMAGE_USAGE_DEPTH_STENCIL_ATTACHMENT_BIT)
                     image (vkResult drv n),
                   Query GetImageMemoryRequirements,
                   Create DeviceMemory
                     (MemoryAI (mr_size (memReqs drv))
                        (getMemoryTypeIndex s (memoryTypeBits (memReqs drv))
                           VK_MEMORY_PROPERTY_DEVICE_LOCAL_BIT))
                     memory (vkResult drv (n + 2)),
                   BindImageMemory image memory (vkResult drv (n + 3))]\<rparr>))"
  apply (simp only: createDepthBuffer_def run_defs)
  apply (cases "vkResult drv (length (driverCalls s)) = VK_SUCCESS")
   apply (simp_all only: if_True if_False simp_thms run_defs getMemoryTypeIndex_emit
      getMemoryTypeIndex_upd VulkanAppBase.simps)
  apply (simp add: emit_def numeral_eq_Suc)
  done

lemma getMemoryTypeIndex_spec:
  "if getMemoryTypeIndex s requestBits requestProps = NO_INDEX
   then (\<forall>j < unat (memoryTypeCount (m_physMemProps s)).
           \<not> memoryTypeMatches (m_physMemProps s) requestBits requestProps j)
   else getMemoryTypeIndex s requestBits requestProps < memoryTypeCount (m_physMemProps s)
      \<and> memoryTypeMatches (m_physMemProps s) requestBits requestProps
           (unat (getMemoryTypeIndex s requestBits requestProps))
      \<and> (\<forall>j < unat (getMemoryTypeIndex s requestBits requestProps).
           \<not> memoryTypeMatches (m_physMemProps s) requestBits requestProps j)"
  using getMemoryTypeIndex_loop_spec
    [of requestBits 0 requestBits "m_physMemProps s" requestProps]
  by (simp add: getMemoryTypeIndex_def)

text \<open>
  Claim C1, as the code has it: \<open>getMemoryTypeIndex\<close> returns the first index below
  \<open>memoryTypeCount\<close> whose bit is set in the requirements mask and whose property flags
  include the requirement, and returns the sentinel \<open>0xFFFFFFFF\<close> exactly when there
  is none. \<open>createDepthBuffer\<close> does not look at the value: whenever the image was
  created it passes the returned index, sentinel or not, to the allocation and goes on
  to bind the memory.
\<close>
theorem getMemoryTypeIndex_first_match_else_unchecked_sentinel:
  "(getMemoryTypeIndex s requestBits requestProps \<noteq> NO_INDEX \<longrightarrow>
       getMemoryTypeIndex s requestBits requestProps < memoryTypeCount (m_physMemProps s)
     \<and> memoryTypeMatches (m_physMemProps s) requestBits requestProps
          (unat (getMemoryTypeIndex s requestBits requestProps))
     \<and> (\<forall>j < unat (getMemoryTypeIndex s requestBits requestProps).
          \<not> memoryTypeMatches (m_physMemProps s) requestBits requestProps j))
   \<and> (getMemoryTypeIndex s requestBits requestProps = NO_INDEX \<longleftrightarrow>
        (\<forall>j < unat (memoryTypeCount (m_physMemProps s)).
           \<not> memoryTypeMatches (m_physMemProps s) requestBits requestProps j))
   \<and> (vkResult drv (length (driverCalls s)) = VK_SUCCESS \<longrightarrow>
        (\<exists>s'. createDepthBuffer drv s = Inr s'
           \<and> drop (length (driverCalls s)) (driverCalls s') =
               [Create Image
                  (ImageCI VK_FORMAT_D32_SFLOAT (m_swapchainExtent s)
                     VK_IMAGE_USAGE_DEPTH_STENCIL_ATTACHMENT_BIT)
                  (m_depthBuffer s') VK_SUCCESS,
                Query GetImageMemoryRequirements,
                Create DeviceMemory
                  (MemoryAI (mr_size (memReqs drv))
                     (getMemoryTypeIndex s (memoryTypeBits (memReqs drv))
                        VK_MEMORY_PROPERTY_DEVICE_LOCAL_BIT))
                  (m_depthBufferMemory s') (vkResult drv (length (driverCalls s) + 2)),
                BindImageMemory (m_depthBuffer s') (m_depthBufferMemory s')
                  (vkResult drv (length (driverCalls s) + 3))]))"
proof -
  let ?r = "getMemoryTypeIndex s requestBits requestProps"
  note spec = getMemoryTypeIndex_spec [of s requestBits requestProps]
  have found: "?r \<noteq> NO_INDEX \<longrightarrow>
       ?r < memoryTypeCount (m_physMemProps s)
     \<and> memoryTypeMatches (m_physMemProps s) requestBits requestProps (unat ?r)
     \<and> (\<forall>j < unat ?r. \<not> memoryTypeMatches (m_physMemProps s) requestBits requestProps j)"
  proof (cases "?r = NO_INDEX")
    case True
    then show ?thesis by blast
  next
    case False
    from spec show ?thesis unfolding if_not_P [OF False] by blast
  qed
  have none: "?r = NO_INDEX \<longleftrightarrow>
        (\<forall>j < unat (memoryTypeCount (m_physMemProps s)).
           \<not> memoryTypeMatches (m_physMemProps s) requestBits requestProps j)"
  proof (cases "?r = NO_INDEX")
    case True
    from spec have "\<forall>j < unat (memoryTypeCount (m_physMemProps s)).
           \<not> memoryTypeMatches (m_physMemProps s) requestBits requestProps j"
      unfolding if_P [OF True] .
    with True show ?thesis by blast
  next
    case False
    with found have "unat ?r < unat (memoryTypeCount (m_physMemProps s))"
      and "memoryTypeMatches (m_physMemProps s) requestBits requestProps (unat ?r)"
      by (simp_all add: word_less_nat_alt)
    with False show ?thesis by blast
  qed
  have bind: "vkResult drv (length (driverCalls s)) = VK_SUCCESS \<longrightarrow>
        (\<exists>s'. createDepthBuffer drv s = Inr s'
           \<and> drop (length (driverCalls s)) (driverCalls s') =
               [Create Image
                  (ImageCI VK_FORMAT_D32_SFLOAT (m_swapchainExtent s)
                     VK_IMAGE_USAGE_DEPTH_STENCIL_ATTACHMENT_BIT)
                  (m_depthBuffer s') VK_SUCCESS,
                Query GetImageMemoryRequirements,
                Create DeviceMemory
                  (MemoryAI (mr_size (memReqs drv))
                     (getMemoryTypeIndex s (memoryTypeBits (memReqs drv))
                        VK_MEMORY_PROPERTY_DEVICE_LOCAL_BIT))
                  (m_depthBufferMemory s') (vkResult drv (length (driverCalls s) + 2)),
                BindImageMemory (m_depthBuffer s') (m_depthBufferMemory s')
                  (vkResult drv (length (driverCalls s) + 3))])"
    by (simp add: createDepthBuffer_eq Let_def)
  from found none bind show ?thesis by blast
qed

lemma hostOnly_sentinel:
  "getMemoryTypeIndex hostOnlyState 3 VK_MEMORY_PROPERTY_DEVICE_LOCAL_BIT = NO_INDEX"
  by (simp add: getMemoryTypeIndex_def hostOnlyState_def blank_def memoryTypes32_def
      getMemoryTypeIndex_loop.simps VK_MEMORY_PROPERTY_DEVICE_LOCAL_BIT_def)

lemma deviceLocal_index:
  "getMemoryTypeIndex deviceLocalState 3 VK_MEMORY_PROPERTY_DEVICE_LOCAL_BIT = 1"
  by (simp add: getMemoryTypeIndex_def deviceLocalState_def blank_def demoDriver_def
      memoryTypes32_def getMemoryTypeIndex_loop.simps VK_MEMORY_PROPERTY_DEVICE_LOCAL_BIT_def)

theorem getMemoryTypeIndex_first_match_else_unchecked_sentinel_witness:
  "getMemoryTypeIndex deviceLocalState 3 VK_MEMORY_PROPERTY_DEVICE_LOCAL_BIT = 1
   \<and> memoryTypeMatches (memProps demoDriver) 3 VK_MEMORY_PROPERTY_DEVICE_LOCAL_BIT 1
   \<and> \<not> memoryTypeMatches (memProps demoDriver) 3 VK_MEMORY_PROPERTY_DEVICE_LOCAL_BIT 0
   \<and> getMemoryTypeIndex hostOnlyState 3 VK_MEMORY_PROPERTY_DEVICE_LOCAL_BIT = NO_INDEX
   \<and> \<not> memoryTypeMatches (m_physMemProps hostOnlyState) 3
          VK_MEMORY_PROPERTY_DEVICE_LOCAL_BIT 0
   \<and> (\<exists>s'. createDepthBuffer demoDriver hostOnlyState = Inr s'
         \<and> Create DeviceMemory (MemoryAI 1228800 NO_INDEX) (m_depthBufferMemory s') 0
              \<in> set (driverCalls s'))"
proof -
  note A = getMemoryTypeIndex_first_match_else_unchecked_sentinel
      [of deviceLocalState 3 VK_MEMORY_PROPERTY_DEVICE_LOCAL_BIT demoDriver,
       unfolded deviceLocal_index]
  note B = getMemoryTypeIndex_first_match_else_unchecked_sentinel
      [of hostOnlyState 3 VK_MEMORY_PROPERTY_DEVICE_LOCAL_BIT demoDriver,
       unfolded hostOnly_sentinel]
  have a: "memoryTypeMatches (memProps demoDriver) 3 VK_MEMORY_PROPERTY_DEVICE_LOCAL_BIT 1
      \<and> \<not> memoryTypeMatches (memProps demoDriver) 3 VK_MEMORY_PROPERTY_DEVICE_LOCAL_BIT 0"
    using A by (simp add: NO_INDEX_def deviceLocalState_def blank_def)
  have b: "\<not> memoryTypeMatches (m_physMemProps hostOnlyState) 3
      VK_MEMORY_PROPERTY_DEVICE_LOCAL_BIT 0"
    using B by (simp add: hostOnlyState_def blank_def)
  have calls: "driverCalls hostOnlyState = []" by (simp add: hostOnlyState_def blank_def)
  have ok: "vkResult demoDriver n = VK_SUCCESS" for n by (simp add: demoDriver_def)
  have reqs: "memReqs demoDriver = \<lparr>mr_size = 1228800, memoryTypeBits = 3\<rparr>"
    by (simp add: demoDriver_def)
  from B have c: "\<exists>s'. createDepthBuffer demoDriver hostOnlyState = Inr s'
         \<and> Create DeviceMemory (MemoryAI 1228800 NO_INDEX) (m_depthBufferMemory s') 0
              \<in> set (driverCalls s')"
    by (auto simp: calls ok reqs hostOnly_sentinel VK_SUCCESS_def)
  from a b c deviceLocal_index hostOnly_sentinel show ?thesis by blast
qed

theorem createDepthBuffer_binds_sentinel_counterexample:
  "getMemoryTypeIndex hostOnlyState (memoryTypeBits (memReqs demoDriver))
       VK_MEMORY_PROPERTY_DEVICE_LOCAL_BIT = 0xFFFFFFFF
   \<and> map_sum id driverCalls (createDepthBuffer demoDriver hostOnlyState) =
       Inr [Create Image (ImageCI 126 \<lparr>width = 0, height = 0\<rparr> 32) 100 0,
            Query GetImageMemoryRequirements,
            Create DeviceMemory (MemoryAI 1228800 0xFFFFFFFF) 120 0,
            BindImageMemory 100 120 0]"
proof -
  have bits: "memoryTypeBits (memReqs demoDriver) = 3" by (simp add: demoDriver_def)
  show ?thesis
    unfolding bits createDepthBuffer_eq Let_def hostOnly_sentinel
    by (simp add: demoDriver_def hostOnlyState_def blank_def NO_INDEX_def VK_SUCCESS_def
        VK_FORMAT_D32_SFLOAT_def VK_IMAGE_USAGE_DEPTH_STENCIL_ATTACHMENT_BIT_def)
qed


section \<open>Initialization, frames and teardown as histories\<close>


lemma initializeInstance_eq:
  "initializeInstance drv s =
     (let n = length (driverCalls s) + 2
      in if vkResult drv n \<noteq> VK_SUCCESS then Inl DebugBreak
         else Inr (s\<lparr>m_instance := newHandle drv n 0,
                driverCalls := driverCalls s @
                  [Query EnumerateInstanceExtensionProperties,
                   Query EnumerateInstanceExtensionProperties,
                   Create Instance NoInfo (newHandle drv n 0) (vkResult drv n)]\<rparr>))"
  apply (simp only: initializeInstance_def run_defs)
  apply (cases "vkResult drv (length (driverCalls s) + 2) = VK_SUCCESS")
   apply (simp_all only: if_True if_False simp_thms run_defs VulkanAppBase.simps)
   apply (cases s, simp add: emit_def checkResult_def numeral_eq_Suc)+
  done

lemma selectPhysicalDevice_eq:
  "selectPhysicalDevice drv s =
     (case physDevs drv of
        [] \<Rightarrow> Inl OutOfBounds
      | d # ds \<Rightarrow>
          Inr (s\<lparr>m_physDev := d, m_physMemProps := memProps drv,
                 driverCalls := driverCalls s @
                   [Query EnumeratePhysicalDevices, Query EnumeratePhysicalDevices,
                    Query GetPhysicalDeviceMemoryProperties]\<rparr>))"
  apply (simp only: selectPhysicalDevice_def run_defs)
  apply (cases "physDevs drv")
   apply (simp_all only: list.case)
  apply (cases s, simp add: emit_def)
  done

lemma searchGraphicsQueueIndex_eq:
  "searchGraphicsQueueIndex drv s =
     (searchGraphicsQueueIndex_loop (queueFamilies drv) 0,
      s\<lparr>driverCalls := driverCalls s @
           [Query GetPhysicalDeviceQueueFamilyProperties,
            Query GetPhysicalDeviceQueueFamilyProperties]\<rparr>)"
  apply (simp only: searchGraphicsQueueIndex_def run_defs)
  apply (cases s, simp add: emit_def)
  done

lemma createDevice_eq:
  "createDevice drv s =
     (let n = length (driverCalls s) + 2
      in if vkResult drv n \<noteq> VK_SUCCESS then Inl DebugBreak
         else Inr (s\<lparr>m_device := newHandle drv n 0, m_deviceQueue := newHandle drv (n + 1) 0,
                driverCalls := driverCalls s @
                  [Query EnumerateDeviceExtensionProperties,
                   Query EnumerateDeviceExtensionProperties,
                   Create Device (DeviceCI (m_graphicsQueueIndex s)) (newHandle drv n 0)
                     (vkResult drv n),
                   Query GetDeviceQueue]\<rparr>))"
  apply (simp only: createDevice_def run_defs)
  apply (cases "vkResult drv (length (driverCalls s) + 2) = VK_SUCCESS")
   apply (simp_all only: if_True if_False simp_thms run_defs VulkanAppBase.simps)
   apply (cases s, simp add: emit_def checkResult_def numeral_eq_Suc)+
  done

lemma prepareCommandPool_eq:
  "prepareCommandPool drv s =
     (let n = length (driverCalls s)
      in if vkResult drv n \<noteq> VK_SUCCESS then Inl DebugBreak
         else Inr (s\<lparr>m_commandPool := newHandle drv n 0,
                driverCalls := driverCalls s @
                  [Create CommandPool
                     (CommandPoolCI (m_graphicsQueueIndex s)
                        VK_COMMAND_POOL_CREATE_RESET_COMMAND_BUFFER_BIT)
                     (newHandle drv n 0) (vkResult drv n)]\<rparr>))"
  apply (simp only: prepareCommandPool_def run_defs)
  apply (cases "vkResult drv (length (driverCalls s)) = VK_SUCCESS")
   apply (simp_all only: if_True if_False simp_thms run_defs VulkanAppBase.simps)
   apply (cases s, simp add: emit_def checkResult_def)+
  done

lemma createWindowSurface_eq:
  "createWindowSurface drv s =
     Inr (s\<lparr>m_surface := newHandle drv (length (driverCalls s)) 0,
            driverCalls := driverCalls s @
              [Create Surface NoInfo (newHandle drv (length (driverCalls s)) 0)
                 (vkResult drv (length (driverCalls s)))]\<rparr>)"
  apply (simp only: createWindowSurface_def run_defs)
  apply (cases s, simp add: emit_def)
  done

lemma getSurfaceCapabilities_eq:
  "getSurfaceCapabilities drv s =
     Inr (s\<lparr>m_surfaceCaps := surfaceCaps drv,
            driverCalls := driverCalls s @
              [Query GetPhysicalDeviceSurfaceCapabilitiesKHR,
               Query GetPhysicalDeviceSurfaceSupportKHR]\<rparr>)"
  apply (simp only: getSurfaceCapabilities_def run_defs)
  apply (cases s, simp add: emit_def)
  done

lemma createRenderPass_eq:
  "createRenderPass drv s =
     (let n = length (driverCalls s)
      in if vkResult drv n \<noteq> VK_SUCCESS then Inl DebugBreak
         else Inr (s\<lparr>m_renderPass := newHandle drv n 0,
                driverCalls := driverCalls s @
                  [Create RenderPass
                     (RenderPassCI (format (m_surfaceFormat s)) VK_FORMAT_D32_SFLOAT)
                     (newHandle drv n 0) (vkResult drv n)]\<rparr>))"
  apply (simp only: createRenderPass_def run_defs)
  apply (cases "vkResult drv (length (driverCalls s)) = VK_SUCCESS")
   apply (simp_all only: if_True if_False simp_thms run_defs VulkanAppBase.simps)
   apply (cases s, simp add: emit_def checkResult_def)+
  done

lemma prepareSemaphores_eq:
  "prepareSemaphores drv s =
     (let n = length (driverCalls s)
      in Inr (s\<lparr>m_renderCompletedSem := newHandle drv n 0,
                m_presentCompletedSem := newHandle drv (n + 1) 0,
                driverCalls := driverCalls s @
                  [Create Semaphore NoInfo (newHandle drv n 0) (vkResult drv n),
                   Create Semaphore NoInfo (newHandle drv (n + 1) 0) (vkResult drv (n + 1))]\<rparr>))"
  apply (simp only: prepareSemaphores_def run_defs VulkanAppBase.simps)
  apply (cases s, simp add: emit_def)
  done

lemma createViews_loop_Cons:
  "createViews_loop drv (i # is) s =
     (let n = length (driverCalls s)
      in if vkResult drv n \<noteq> VK_SUCCESS then Inl DebugBreak
         else createViews_loop drv is
                (s\<lparr>m_swapchainViews := (m_swapchainViews s)[i := newHandle drv n 0],
                   driverCalls := driverCalls s @
                     [Create ImageView
                        (ImageViewCI (m_swapchainImages s ! i) (format (m_surfaceFormat s))
                           VK_IMAGE_ASPECT_COLOR_BIT)
                        (newHandle drv n 0) (vkResult drv n)]\<rparr>))"
  apply (simp only: createViews_loop.simps run_defs)
  apply (cases "vkResult drv (length (driverCalls s)) = VK_SUCCESS")
   apply (simp_all only: if_True if_False simp_thms run_defs VulkanAppBase.simps)
   apply (cases s, simp add: emit_def checkResult_def)+
  done

lemma createFramebuffer_loop_Cons:
  "createFramebuffer_loop drv (v # vs) s =
     (let n = length (driverCalls s)
      in if vkResult drv n \<noteq> VK_SUCCESS then Inl DebugBreak
         else createFramebuffer_loop drv vs
                (s\<lparr>m_framebuffers := m_framebuffers s @ [newHandle drv n 0],
                   driverCalls := driverCalls s @
                     [Create Framebuffer
                        (FramebufferCI (m_renderPass s) [v, m_depthBufferView s]
                           (m_swapchainExtent s))
                        (newHandle drv n 0) (vkResult drv n)]\<rparr>))"
  apply (simp only: createFramebuffer_loop.simps run_defs)
  apply (cases "vkResult drv (length (driverCalls s)) = VK_SUCCESS")
   apply (simp_all only: if_True if_False simp_thms run_defs VulkanAppBase.simps)
   apply (cases s, simp add: emit_def checkResult_def)+
  done

lemma prepareCommandBuffers_loop_Cons:
  "prepareCommandBuffers_loop drv (i # is) s =
     (let n = length (driverCalls s)
      in if vkResult drv n \<noteq> VK_SUCCESS then Inl DebugBreak
         else prepareCommandBuffers_loop drv is
                (s\<lparr>m_fences := (m_fences s)[i := newHandle drv n 0],
                   driverCalls := driverCalls s @
                     [Create Fence (FenceCI VK_FENCE_CREATE_SIGNALED_BIT)
                        (newHandle drv n 0) (vkResult drv n)]\<rparr>))"
  apply (simp only: prepareCommandBuffers_loop.simps run_defs)
  apply (cases "vkResult drv (length (driverCalls s)) = VK_SUCCESS")
   apply (simp_all only: if_True if_False simp_thms run_defs VulkanAppBase.simps)
   apply (cases s, simp add: emit_def checkResult_def)+
  done

lemma createViews_eq:
  "createViews drv s =
     (let n = unat (swapchainImageCount drv)
      in andThen
           (createViews_loop drv [0..<n]
              (s\<lparr>m_swapchainImages := map (swapchainImage drv) [0..<n],
                 m_swapchainViews := resize n (m_swapchainViews s),
                 driverCalls := driverCalls s @
                   [Query GetSwapchainImagesKHR, Query GetSwapchainImagesKHR]\<rparr>))
           (\<lambda>s4. let k = length (driverCalls s4)
                 in if vkResult drv k \<noteq> VK_SUCCESS then Inl DebugBreak
                    else Inr (s4\<lparr>driverCalls := driverCalls s4 @
                             [Create ImageView
                                (ImageViewCI (m_depthBuffer s4) VK_FORMAT_D32_SFLOAT
                                   VK_IMAGE_ASPECT_DEPTH_BIT)
                                (newHandle drv k 0) (vkResult drv k)],
                           m_depthBufferView := newHandle drv k 0\<rparr>)))"
  apply (simp only: createViews_def run_defs VulkanAppBase.simps)
  apply (cases s, simp add: emit_def checkResult_def cong: if_cong)
  done

lemma prepareCommandBuffers_eq:
  "prepareCommandBuffers drv s =
     (let n = unat (of_nat (length (m_swapchainViews s)) :: u32);
          k = length (driverCalls s);
          hs = map (newHandle drv k) [0..<n]
      in if vkResult drv k \<noteq> VK_SUCCESS then Inl DebugBreak
         else prepareCommandBuffers_loop drv [0..<n]
                (s\<lparr>m_commands := hs, m_fences := resize n (m_fences s),
                   driverCalls := driverCalls s @
                     [AllocateCommandBuffers (m_commandPool s)
                        VK_COMMAND_BUFFER_LEVEL_PRIMARY hs (vkResult drv k)]\<rparr>))"
  apply (simp only: prepareCommandBuffers_def run_defs VulkanAppBase.simps)
  apply (cases "vkResult drv (length (driverCalls s)) = VK_SUCCESS")
   apply (simp_all only: if_True if_False simp_thms run_defs VulkanAppBase.simps)
   apply (cases s, simp add: emit_def checkResult_def resize_def)+
  done

declare createViews_loop.simps(2) [simp del]
declare createFramebuffer_loop.simps(2) [simp del]
declare prepareCommandBuffers_loop.simps(2) [simp del]

lemma initializeInstance_step:
  "initializeInstance drv s = Inr s' \<Longrightarrow> \<exists>es. initStep s s' es \<and> tracked s' = tracked s"
  by (auto simp: initializeInstance_eq Let_def initStep_def tracked_def split: if_splits)

lemma selectPhysicalDevice_step:
  "selectPhysicalDevice drv s = Inr s' \<Longrightarrow> \<exists>es. initStep s s' es \<and> tracked s' = tracked s"
  by (auto simp: selectPhysicalDevice_eq Let_def initStep_def tracked_def split: list.splits)

lemma searchGraphicsQueueIndex_step:
  "(let (q, s1) = searchGraphicsQueueIndex drv s in Inr (s1\<lparr>m_graphicsQueueIndex := q\<rparr>))
     = Inr s' \<Longrightarrow> \<exists>es. initStep s s' es \<and> tracked s' = tracked s"
  by (auto simp: searchGraphicsQueueIndex_eq Let_def initStep_def tracked_def)

lemma createDevice_step:
  "createDevice drv s = Inr s' \<Longrightarrow> \<exists>es. initStep s s' es \<and> tracked s' = tracked s"
  by (auto simp: createDevice_eq Let_def initStep_def tracked_def split: if_splits)

lemma prepareCommandPool_step:
  "prepareCommandPool drv s = Inr s' \<Longrightarrow> \<exists>es. initStep s s' es \<and> tracked s' = tracked s"
  by (auto simp: prepareCommandPool_eq Let_def initStep_def tracked_def split: if_splits)

lemma createWindowSurface_step:
  "createWindowSurface drv s = Inr s' \<Longrightarrow> \<exists>es. initStep s s' es \<and> tracked s' = tracked s"
  by (auto simp: createWindowSurface_eq Let_def initStep_def tracked_def)

lemma selectSurfaceFormat_step:
  "selectSurfaceFormat fmt drv s = Inr s' \<Longrightarrow> \<exists>es. initStep s s' es \<and> tracked s' = tracked s"
  by (auto simp: selectSurfaceFormat_eq Let_def initStep_def tracked_def)

lemma getSurfaceCapabilities_step:
  "getSurfaceCapabilities drv s = Inr s' \<Longrightarrow>
     \<exists>es. initStep s s' es \<and> tracked s' = tracked s \<and> m_surfaceCaps s' = surfaceCaps drv"
  by (auto simp: getSurfaceCapabilities_eq Let_def initStep_def tracked_def)

lemma createSwapchain_step:
  "createSwapchain drv s = Inr s' \<Longrightarrow>
     \<exists>es. initStep s s' es \<and> tracked s' = tracked s
       \<and> (\<exists>surface fmt extent mode h r.
             Create Swapchain
               (SwapchainCI surface (max 2 (minImageCount (m_surfaceCaps s))) fmt extent mode)
               h r \<in> set es)"
  by (auto simp: createSwapchain_eq Let_def initStep_def tracked_def split: if_splits)

lemma createDepthBuffer_step:
  "createDepthBuffer drv s = Inr s' \<Longrightarrow>
     \<exists>es. initStep s s' es \<and> tracked s' = tracked s
       \<and> (\<exists>ci r. Create Image ci (m_depthBuffer s') r \<in> set es)
       \<and> (\<exists>ci r. Create DeviceMemory ci (m_depthBufferMemory s') r \<in> set es)"
  by (auto simp: createDepthBuffer_eq Let_def initStep_def tracked_def split: if_splits)

lemma createRenderPass_step:
  "createRenderPass drv s = Inr s' \<Longrightarrow> \<exists>es. initStep s s' es \<and> tracked s' = tracked s"
  by (auto simp: createRenderPass_eq Let_def initStep_def tracked_def split: if_splits)

lemma prepareSemaphores_step:
  "prepareSemaphores drv s = Inr s' \<Longrightarrow> \<exists>es. initStep s s' es \<and> tracked s' = tracked s"
  by (auto simp: prepareSemaphores_eq Let_def initStep_def tracked_def)

lemma initStep_trans:
  "initStep s s1 es \<Longrightarrow> initStep s1 s' es' \<Longrightarrow> initStep s s' (es @ es')"
  by (simp add: initStep_def)

lemma createViews_loop_step:
  "createViews_loop drv idxs s = Inr s' \<Longrightarrow>
     \<exists>es. initStep s s' es
       \<and> length (m_swapchainViews s') = length (m_swapchainViews s)
       \<and> tracked s' = tracked (s\<lparr>m_swapchainViews := m_swapchainViews s'\<rparr>)
       \<and> m_depthBuffer s' = m_depthBuffer s"
proof (induction idxs arbitrary: s)
  case Nil
  then show ?case by (simp add: initStep_def tracked_def)
next
  case (Cons i idxs)
  let ?n = "length (driverCalls s)"
  let ?e = "Create ImageView
              (ImageViewCI (m_swapchainImages s ! i) (format (m_surfaceFormat s))
                 VK_IMAGE_ASPECT_COLOR_BIT)
              (newHandle drv ?n 0) (vkResult drv ?n)"
  let ?s1 = "s\<lparr>m_swapchainViews := (m_swapchainViews s)[i := newHandle drv ?n 0],
               driverCalls := driverCalls s @ [?e]\<rparr>"
  from Cons.prems have ok: "vkResult drv ?n = VK_SUCCESS"
    and rest: "createViews_loop drv idxs ?s1 = Inr s'"
    by (simp_all add: createViews_loop_Cons Let_def split: if_splits)
  from Cons.IH [OF rest] obtain es where es: "initStep ?s1 s' es"
    and len: "length (m_swapchainViews s') = length (m_swapchainViews ?s1)"
    and tr: "tracked s' = tracked (?s1\<lparr>m_swapchainViews := m_swapchainViews s'\<rparr>)"
    and db: "m_depthBuffer s' = m_depthBuffer ?s1"
    by blast
  have "initStep s ?s1 [?e]" using ok by (simp add: initStep_def)
  from initStep_trans [OF this es] have "initStep s s' ([?e] @ es)" .
  moreover from len have "length (m_swapchainViews s') = length (m_swapchainViews s)" by simp
  moreover from tr have "tracked s' = tracked (s\<lparr>m_swapchainViews := m_swapchainViews s'\<rparr>)"
    by (simp add: tracked_def)
  moreover from db have "m_depthBuffer s' = m_depthBuffer s" by simp
  ultimately show ?case by blast
qed

lemma createViews_step:
  "createViews drv s = Inr s' \<Longrightarrow>
     \<exists>es. initStep s s' es
       \<and> length (m_swapchainImages s') = unat (swapchainImageCount drv)
       \<and> length (m_swapchainViews s') = unat (swapchainImageCount drv)
       \<and> tracked s' = tracked (s\<lparr>m_swapchainImages := m_swapchainImages s',
                                 m_swapchainViews := m_swapchainViews s'\<rparr>)
       \<and> (\<exists>ci r. Create ImageView ci (m_depthBufferView s') r \<in> set es)"
proof -
  assume a: "createViews drv s = Inr s'"
  let ?n = "unat (swapchainImageCount drv)"
  let ?q = "[Query GetSwapchainImagesKHR, Query GetSwapchainImagesKHR]"
  let ?s3 = "s\<lparr>m_swapchainImages := map (swapchainImage drv) [0..<?n],
                 m_swapchainViews := resize ?n (m_swapchainViews s),
                 driverCalls := driverCalls s @ ?q\<rparr>"
  from a obtain s4 where loop: "createViews_loop drv [0..<?n] ?s3 = Inr s4"
    and ok: "vkResult drv (length (driverCalls s4)) = VK_SUCCESS"
    and s': "s' = s4\<lparr>driverCalls := driverCalls s4 @
                [Create ImageView
                   (ImageViewCI (m_depthBuffer s4) VK_FORMAT_D32_SFLOAT VK_IMAGE_ASPECT_DEPTH_BIT)
                   (newHandle drv (length (driverCalls s4)) 0)
                   (vkResult drv (length (driverCalls s4)))],
              m_depthBufferView := newHandle drv (length (driverCalls s4)) 0\<rparr>"
    by (auto simp: createViews_eq Let_def andThen_Inr_iff split: if_splits)
  from createViews_loop_step [OF loop] obtain es where es: "initStep ?s3 s4 es"
    and len: "length (m_swapchainViews s4) = length (m_swapchainViews ?s3)"
    and tr: "tracked s4 = tracked (?s3\<lparr>m_swapchainViews := m_swapchainViews s4\<rparr>)"
    by blast
  let ?e = "Create ImageView
                   (ImageViewCI (m_depthBuffer s4) VK_FORMAT_D32_SFLOAT VK_IMAGE_ASPECT_DEPTH_BIT)
                   (newHandle drv (length (driverCalls s4)) 0)
                   (vkResult drv (length (driverCalls s4)))"
  have "initStep s ?s3 ?q" by (simp add: initStep_def)
  from initStep_trans [OF this es] have "initStep s s4 (?q @ es)" .
  moreover have "initStep s4 s' [?e]" using ok s' by (simp add: initStep_def)
  ultimately have 1: "initStep s s' ((?q @ es) @ [?e])" by (rule initStep_trans)
  have 2: "length (m_swapchainViews s') = ?n" using len s' by (simp add: resize_def min_def)
  have 3: "length (m_swapchainImages s') = ?n" using tr s' by (simp add: tracked_def)
  have 4: "tracked s' = tracked (s\<lparr>m_swapchainImages := m_swapchainImages s',
                                 m_swapchainViews := m_swapchainViews s'\<rparr>)"
    using tr s' by (simp add: tracked_def)
  have 5: "Create ImageView
             (ImageViewCI (m_depthBuffer s4) VK_FORMAT_D32_SFLOAT VK_IMAGE_ASPECT_DEPTH_BIT)
             (m_depthBufferView s') (vkResult drv (length (driverCalls s4)))
           \<in> set ((?q @ es) @ [?e])"
    using s' by simp
  from 1 2 3 4 5 show ?thesis by blast
qed

lemma createFramebuffer_loop_step:
  "createFramebuffer_loop drv vs s = Inr s' \<Longrightarrow>
     \<exists>es. initStep s s' es
       \<and> length (m_framebuffers s') = length (m_framebuffers s) + length vs
       \<and> tracked s' = tracked (s\<lparr>m_framebuffers := m_framebuffers s'\<rparr>)"
proof (induction vs arbitrary: s)
  case Nil
  then show ?case by (simp add: initStep_def tracked_def)
next
  case (Cons v vs)
  let ?n = "length (driverCalls s)"
  let ?e = "Create Framebuffer
              (FramebufferCI (m_renderPass s) [v, m_depthBufferView s] (m_swapchainExtent s))
              (newHandle drv ?n 0) (vkResult drv ?n)"
  let ?s1 = "s\<lparr>m_framebuffers := m_framebuffers s @ [newHandle drv ?n 0],
               driverCalls := driverCalls s @ [?e]\<rparr>"
  from Cons.prems have ok: "vkResult drv ?n = VK_SUCCESS"
    and rest: "createFramebuffer_loop drv vs ?s1 = Inr s'"
    by (simp_all add: createFramebuffer_loop_Cons Let_def split: if_splits)
  from Cons.IH [OF rest] obtain es where es: "initStep ?s1 s' es"
    and len: "length (m_framebuffers s') = length (m_framebuffers ?s1) + length vs"
    and tr: "tracked s' = tracked (?s1\<lparr>m_framebuffers := m_framebuffers s'\<rparr>)"
    by blast
  have "initStep s ?s1 [?e]" using ok by (simp add: initStep_def)
  from initStep_trans [OF this es] have "initStep s s' ([?e] @ es)" .
  moreover from len
  have "length (m_framebuffers s') = length (m_framebuffers s) + length (v # vs)" by simp
  moreover from tr have "tracked s' = tracked (s\<lparr>m_framebuffers := m_framebuffers s'\<rparr>)"
    by (simp add: tracked_def)
  ultimately show ?case by blast
qed

lemma length_resize [simp]: "length (resize n xs) = n"
  by (simp add: resize_def min_def)

lemma createFramebuffer_step:
  assumes a: "createFramebuffer drv s = Inr s'"
  shows "\<exists>es. initStep s s' es
       \<and> length (m_framebuffers s') = length (m_swapchainViews s)
       \<and> tracked s' = tracked (s\<lparr>m_framebuffers := m_framebuffers s'\<rparr>)"
proof -
  let ?s1 = "s\<lparr>m_framebuffers := []\<rparr>"
  from a have "createFramebuffer_loop drv (m_swapchainViews s) ?s1 = Inr s'"
    by (simp add: createFramebuffer_def)
  from createFramebuffer_loop_step [OF this] obtain es where es: "initStep ?s1 s' es"
    and len: "length (m_framebuffers s') = length (m_framebuffers ?s1) + length (m_swapchainViews s)"
    and tr: "tracked s' = tracked (?s1\<lparr>m_framebuffers := m_framebuffers s'\<rparr>)"
    by blast
  from es have 1: "initStep s s' es" by (simp add: initStep_def)
  from len have 2: "length (m_framebuffers s') = length (m_swapchainViews s)" by simp
  from tr have 3: "tracked s' = tracked (s\<lparr>m_framebuffers := m_framebuffers s'\<rparr>)"
    by (simp add: tracked_def)
  from 1 2 3 show ?thesis by blast
qed

lemma prepareCommandBuffers_loop_step:
  "prepareCommandBuffers_loop drv idxs s = Inr s' \<Longrightarrow> distinct idxs \<Longrightarrow>
   \<forall>i\<in>set idxs. i < length (m_fences s) \<Longrightarrow>
     \<exists>es. initStep s s' es
       \<and> (\<forall>i\<in>set idxs. \<exists>r.
             Create Fence (FenceCI VK_FENCE_CREATE_SIGNALED_BIT) (m_fences s' ! i) r \<in> set es)
       \<and> length (m_fences s') = length (m_fences s)
       \<and> (\<forall>j. j \<notin> set idxs \<longrightarrow> m_fences s' ! j = m_fences s ! j)
       \<and> tracked s' = tracked (s\<lparr>m_fences := m_fences s'\<rparr>)"
proof (induction idxs arbitrary: s)
  case Nil
  then show ?case by (simp add: initStep_def tracked_def)
next
  case (Cons i idxs)
  let ?n = "length (driverCalls s)"
  let ?h = "newHandle drv ?n 0"
  let ?e = "Create Fence (FenceCI VK_FENCE_CREATE_SIGNALED_BIT) ?h (vkResult drv ?n)"
  let ?s1 = "s\<lparr>m_fences := (m_fences s)[i := ?h], driverCalls := driverCalls s @ [?e]\<rparr>"
  from Cons.prems(1) have ok: "vkResult drv ?n = VK_SUCCESS"
    and rest: "prepareCommandBuffers_loop drv idxs ?s1 = Inr s'"
    by (simp_all add: prepareCommandBuffers_loop_Cons Let_def split: if_splits)
  from Cons.prems(2) have d: "distinct idxs" and fresh: "i \<notin> set idxs" by simp_all
  from Cons.prems(3) have i: "i < length (m_fences s)"
    and bound: "\<forall>k\<in>set idxs. k < length (m_fences ?s1)" by simp_all
  from Cons.IH [OF rest d bound] obtain es where es: "initStep ?s1 s' es"
    and made: "\<forall>k\<in>set idxs. \<exists>r.
          Create Fence (FenceCI VK_FENCE_CREATE_SIGNALED_BIT) (m_fences s' ! k) r \<in> set es"
    and len: "length (m_fences s') = length (m_fences ?s1)"
    and keep: "\<forall>j. j \<notin> set idxs \<longrightarrow> m_fences s' ! j = m_fences ?s1 ! j"
    and tr: "tracked s' = tracked (?s1\<lparr>m_fences := m_fences s'\<rparr>)"
    by blast
  have "initStep s ?s1 [?e]" using ok by (simp add: initStep_def)
  from initStep_trans [OF this es] have 1: "initStep s s' ([?e] @ es)" .
  from keep fresh i have here: "m_fences s' ! i = ?h" by simp
  have 2: "\<forall>k\<in>set (i # idxs). \<exists>r.
          Create Fence (FenceCI VK_FENCE_CREATE_SIGNALED_BIT) (m_fences s' ! k) r
            \<in> set ([?e] @ es)"
    using made here by auto
  from len have 3: "length (m_fences s') = length (m_fences s)" by simp
  from keep have 4: "\<forall>j. j \<notin> set (i # idxs) \<longrightarrow> m_fences s' ! j = m_fences s ! j" by simp
  from tr have 5: "tracked s' = tracked (s\<lparr>m_fences := m_fences s'\<rparr>)"
    by (simp add: tracked_def)
  from 1 2 3 4 5 show ?case by blast
qed

lemma prepareCommandBuffers_step:
  assumes a: "prepareCommandBuffers drv s = Inr s'"
  shows "\<exists>es. initStep s s' es
       \<and> length (m_commands s') = unat (of_nat (length (m_swapchainViews s)) :: u32)
       \<and> length (m_fences s') = unat (of_nat (length (m_swapchainViews s)) :: u32)
       \<and> tracked s' = tracked (s\<lparr>m_commands := m_commands s', m_fences := m_fences s'\<rparr>)
       \<and> (\<forall>f\<in>set (m_fences s'). \<exists>r.
             Create Fence (FenceCI VK_FENCE_CREATE_SIGNALED_BIT) f r \<in> set es)"
proof -
  let ?n = "unat (of_nat (length (m_swapchainViews s)) :: u32)"
  let ?k = "length (driverCalls s)"
  let ?hs = "map (newHandle drv ?k) [0..<?n]"
  let ?e = "AllocateCommandBuffers (m_commandPool s) VK_COMMAND_BUFFER_LEVEL_PRIMARY ?hs
              (vkResult drv ?k)"
  let ?s1 = "s\<lparr>m_commands := ?hs, m_fences := resize ?n (m_fences s),
               driverCalls := driverCalls s @ [?e]\<rparr>"
  from a have ok: "vkResult drv ?k = VK_SUCCESS"
    and loop: "prepareCommandBuffers_loop drv [0..<?n] ?s1 = Inr s'"
    by (simp_all add: prepareCommandBuffers_eq Let_def split: if_splits)
  have bound: "\<forall>i\<in>set [0..<?n]. i < length (m_fences ?s1)" by simp
  from prepareCommandBuffers_loop_step [OF loop distinct_upt bound]
  obtain es where es: "initStep ?s1 s' es"
    and made: "\<forall>i\<in>set [0..<?n]. \<exists>r.
          Create Fence (FenceCI VK_FENCE_CREATE_SIGNALED_BIT) (m_fences s' ! i) r \<in> set es"
    and len: "length (m_fences s') = length (m_fences ?s1)"
    and tr: "tracked s' = tracked (?s1\<lparr>m_fences := m_fences s'\<rparr>)"
    by blast
  have "initStep s ?s1 [?e]" using ok by (simp add: initStep_def)
  from initStep_trans [OF this es] have 1: "initStep s s' ([?e] @ es)" .
  from len have 3: "length (m_fences s') = ?n" by simp
  from tr have 2: "length (m_commands s') = ?n" by (simp add: tracked_def)
  from tr have 4: "tracked s' = tracked (s\<lparr>m_commands := m_commands s', m_fences := m_fences s'\<rparr>)"
    by (simp add: tracked_def)
  have 5: "\<forall>f\<in>set (m_fences s'). \<exists>r.
             Create Fence (FenceCI VK_FENCE_CREATE_SIGNALED_BIT) f r \<in> set ([?e] @ es)"
  proof
    fix f assume "f \<in> set (m_fences s')"
    then obtain i where "i < length (m_fences s')" and f: "f = m_fences s' ! i"
      by (auto simp: in_set_conv_nth)
    with 3 have "i \<in> set [0..<?n]" by simp
    with made f show "\<exists>r. Create Fence (FenceCI VK_FENCE_CREATE_SIGNALED_BIT) f r
        \<in> set ([?e] @ es)" by auto
  qed
  from 1 2 3 4 5 show ?thesis by blast
qed

lemma initialize_steps:
  assumes "initialize drv s0 = Inr s"
  shows "\<exists>es. initStep s0 s es
     \<and> (\<exists>surface fmt extent mode h r.
           Create Swapchain
             (SwapchainCI surface (max 2 (minImageCount (surfaceCaps drv))) fmt extent mode)
             h r \<in> set es)
     \<and> (\<exists>ci h r. Create Image ci h r \<in> set es)
     \<and> (\<exists>ci h r. Create DeviceMemory ci h r \<in> set es)
     \<and> (\<exists>ci h r. Create ImageView ci h r \<in> set es)
     \<and> length (m_swapchainImages s) = unat (swapchainImageCount drv)
     \<and> length (m_swapchainViews s) = unat (swapchainImageCount drv)
     \<and> length (m_framebuffers s) = unat (swapchainImageCount drv)
     \<and> length (m_commands s) = unat (swapchainImageCount drv)
     \<and> length (m_fences s) = unat (swapchainImageCount drv)
     \<and> (\<forall>f\<in>set (m_fences s). \<exists>r.
           Create Fence (FenceCI VK_FENCE_CREATE_SIGNALED_BIT) f r \<in> set es)"
proof -
  from assms [unfolded initialize_def andThen_Inr_iff]
  obtain s1 s2 s3 s4 s5 s6 s7 s8 s9 s10 s11 s12 s13 s14 s15 where
    h1: "initializeInstance drv s0 = Inr s1" and
    h2: "selectPhysicalDevice drv s1 = Inr s2" and
    h3: "(let (q, sa) = searchGraphicsQueueIndex drv s2
          in Inr (sa\<lparr>m_graphicsQueueIndex := q\<rparr>)) = (Inr s3 :: fault + VulkanAppBase)" and
    h4: "createDevice drv s3 = Inr s4" and
    h5: "prepareCommandPool drv s4 = Inr s5" and
    h6: "createWindowSurface drv s5 = Inr s6" and
    h7: "selectSurfaceFormat VK_FORMAT_B8G8R8A8_UNORM drv s6 = Inr s7" and
    h8: "getSurfaceCapabilities drv s7 = Inr s8" and
    h9: "createSwapchain drv s8 = Inr s9" and
    h10: "createDepthBuffer drv s9 = Inr s10" and
    h11: "createViews drv s10 = Inr s11" and
    h12: "createRenderPass drv s11 = Inr s12" and
    h13: "createFramebuffer drv s12 = Inr s13" and
    h14: "prepareCommandBuffers drv s13 = Inr s14" and
    h15: "prepareSemaphores drv s14 = Inr s15" and
    h16: "Inr (emit Prepare s15) = (Inr s :: fault + VulkanAppBase)"
    by (elim exE conjE) (rule that)
  from initializeInstance_step [OF h1] obtain e1 where
    e1: "initStep s0 s1 e1" by blast
  from selectPhysicalDevice_step [OF h2] obtain e2 where
    e2: "initStep s1 s2 e2" by blast
  from searchGraphicsQueueIndex_step [OF h3] obtain e3 where
    e3: "initStep s2 s3 e3" by blast
  from createDevice_step [OF h4] obtain e4 where
    e4: "initStep s3 s4 e4" by blast
  from prepareCommandPool_step [OF h5] obtain e5 where
    e5: "initStep s4 s5 e5" by blast
  from createWindowSurface_step [OF h6] obtain e6 where
    e6: "initStep s5 s6 e6" by blast
  from selectSurfaceFormat_step [OF h7] obtain e7 where
    e7: "initStep s6 s7 e7" by blast
  from getSurfaceCapabilities_step [OF h8] obtain e8 where
    e8: "initStep s7 s8 e8" and caps: "m_surfaceCaps s8 = surfaceCaps drv" by blast
  from createSwapchain_step [OF h9] obtain e9 where
    e9: "initStep s8 s9 e9" and
    sw: "\<exists>surface fmt extent mode h r.
           Create Swapchain
             (SwapchainCI surface (max 2 (minImageCount (m_surfaceCaps s8))) fmt extent mode)
             h r \<in> set e9" by blast
  from createDepthBuffer_step [OF h10] obtain e10 where
    e10: "initStep s9 s10 e10" and
    img: "\<exists>ci r. Create Image ci (m_depthBuffer s10) r \<in> set e10" and
    mem: "\<exists>ci r. Create DeviceMemory ci (m_depthBufferMemory s10) r \<in> set e10" by blast
  from createViews_step [OF h11] obtain e11 where
    e11: "initStep s10 s11 e11" and
    l11a: "length (m_swapchainImages s11) = unat (swapchainImageCount drv)" and
    l11b: "length (m_swapchainViews s11) = unat (swapchainImageCount drv)" and
    view: "\<exists>ci r. Create ImageView ci (m_depthBufferView s11) r \<in> set e11" by blast
  from createRenderPass_step [OF h12] obtain e12 where
    e12: "initStep s11 s12 e12" and t12: "tracked s12 = tracked s11" by blast
  from createFramebuffer_step [OF h13] obtain e13 where
    e13: "initStep s12 s13 e13" and
    l13: "length (m_framebuffers s13) = length (m_swapchainViews s12)" and
    t13: "tracked s13 = tracked (s12\<lparr>m_framebuffers := m_framebuffers s13\<rparr>)" by blast
  from prepareCommandBuffers_step [OF h14] obtain e14 where
    e14: "initStep s13 s14 e14" and
    l14a: "length (m_commands s14) = unat (of_nat (length (m_swapchainViews s13)) :: u32)" and
    l14b: "length (m_fences s14) = unat (of_nat (length (m_swapchainViews s13)) :: u32)" and
    t14: "tracked s14 = tracked (s13\<lparr>m_commands := m_commands s14, m_fences := m_fences s14\<rparr>)" and
    fences: "\<forall>f\<in>set (m_fences s14). \<exists>r.
             Create Fence (FenceCI VK_FENCE_CREATE_SIGNALED_BIT) f r \<in> set e14" by blast
  from prepareSemaphores_step [OF h15] obtain e15 where
    e15: "initStep s14 s15 e15" and t15: "tracked s15 = tracked s14" by blast
  from h16 have s: "s = emit Prepare s15" by simp
  have e16: "initStep s15 s [Prepare]" by (simp add: s initStep_def)
  have t16: "tracked s = tracked s15" by (simp add: s tracked_def)
  let ?es = "e1 @ e2 @ e3 @ e4 @ e5 @ e6 @ e7 @ e8 @ e9 @ e10 @ e11 @ e12 @ e13 @ e14 @ e15
             @ [Prepare]"
  from e1 e2 e3 e4 e5 e6 e7 e8 e9 e10 e11 e12 e13 e14 e15 e16
  have 1: "initStep s0 s ?es" by (simp add: initStep_def)
  from sw caps obtain surface fmt extent mode h r where
    "Create Swapchain
       (SwapchainCI surface (max 2 (minImageCount (surfaceCaps drv))) fmt extent mode)
       h r \<in> set e9" by auto
  then have "Create Swapchain
       (SwapchainCI surface (max 2 (minImageCount (surfaceCaps drv))) fmt extent mode)
       h r \<in> set ?es" by simp
  then have 2: "\<exists>surface fmt extent mode h r.
           Create Swapchain
             (SwapchainCI surface (max 2 (minImageCount (surfaceCaps drv))) fmt extent mode)
             h r \<in> set ?es" by blast
  from img obtain ci r where "Create Image ci (m_depthBuffer s10) r \<in> set e10" by blast
  then have "Create Image ci (m_depthBuffer s10) r \<in> set ?es" by simp
  then have 3: "\<exists>ci h r. Create Image ci h r \<in> set ?es" by blast
  from mem obtain ci r where "Create DeviceMemory ci (m_depthBufferMemory s10) r \<in> set e10"
    by blast
  then have "Create DeviceMemory ci (m_depthBufferMemory s10) r \<in> set ?es" by simp
  then have 4: "\<exists>ci h r. Create DeviceMemory ci h r \<in> set ?es" by blast
  from view obtain ci r where "Create ImageView ci (m_depthBufferView s11) r \<in> set e11"
    by blast
  then have "Create ImageView ci (m_depthBufferView s11) r \<in> set ?es" by simp
  then have 5: "\<exists>ci h r. Create ImageView ci h r \<in> set ?es" by blast
  from t12 t13 t14 t15 t16 have
    eqs: "m_swapchainImages s = m_swapchainImages s11" "m_swapchainViews s = m_swapchainViews s11"
      "m_swapchainViews s12 = m_swapchainViews s11" "m_swapchainViews s13 = m_swapchainViews s11"
      "m_framebuffers s = m_framebuffers s13" "m_commands s = m_commands s14"
      "m_fences s = m_fences s14"
    by (simp_all add: tracked_def)
  have n: "unat (of_nat (unat (swapchainImageCount drv)) :: u32) = unat (swapchainImageCount drv)"
    by simp
  from eqs l11a l11b l13 l14a l14b n have 6:
    "length (m_swapchainImages s) = unat (swapchainImageCount drv)"
    "length (m_swapchainViews s) = unat (swapchainImageCount drv)"
    "length (m_framebuffers s) = unat (swapchainImageCount drv)"
    "length (m_commands s) = unat (swapchainImageCount drv)"
    "length (m_fences s) = unat (swapchainImageCount drv)"
    by simp_all
  have 7: "\<forall>f\<in>set (m_fences s). \<exists>r.
           Create Fence (FenceCI VK_FENCE_CREATE_SIGNALED_BIT) f r \<in> set ?es"
  proof
    fix f assume "f \<in> set (m_fences s)"
    with eqs have "f \<in> set (m_fences s14)" by simp
    with fences obtain r where
      "Create Fence (FenceCI VK_FENCE_CREATE_SIGNALED_BIT) f r \<in> set e14" by blast
    then have "Create Fence (FenceCI VK_FENCE_CREATE_SIGNALED_BIT) f r \<in> set ?es" by simp
    then show "\<exists>r. Create Fence (FenceCI VK_FENCE_CREATE_SIGNALED_BIT) f r \<in> set ?es" ..
  qed
  from 1 2 3 4 5 6 7 show ?thesis by blast
qed

lemma createViews_loop_total:
  "(\<And>n. vkResult drv n = VK_SUCCESS) \<Longrightarrow> \<exists>s'. createViews_loop drv idxs s = Inr s'"
  by (induction idxs arbitrary: s) (simp_all add: createViews_loop_Cons Let_def)

lemma createFramebuffer_loop_total:
  "(\<And>n. vkResult drv n = VK_SUCCESS) \<Longrightarrow> \<exists>s'. createFramebuffer_loop drv vs s = Inr s'"
  by (induction vs arbitrary: s) (simp_all add: createFramebuffer_loop_Cons Let_def)

lemma prepareCommandBuffers_loop_total:
  "(\<And>n. vkResult drv n = VK_SUCCESS) \<Longrightarrow>
     \<exists>s'. prepareCommandBuffers_loop drv idxs s = Inr s'"
  by (induction idxs arbitrary: s) (simp_all add: prepareCommandBuffers_loop_Cons Let_def)

lemma createViews_total:
  assumes ok: "\<And>n. vkResult drv n = VK_SUCCESS"
  shows "\<exists>s'. createViews drv s = Inr s'"
proof -
  let ?n = "unat (swapchainImageCount drv)"
  obtain s4 where "createViews_loop drv [0..<?n]
      (s\<lparr>m_swapchainImages := map (swapchainImage drv) [0..<?n],
         m_swapchainViews := resize ?n (m_swapchainViews s),
         driverCalls := driverCalls s @
           [Query GetSwapchainImagesKHR, Query GetSwapchainImagesKHR]\<rparr>) = Inr s4"
    using createViews_loop_total [OF ok] by blast
  then show ?thesis by (simp add: createViews_eq Let_def ok)
qed

lemma initialize_total:
  assumes ok: "\<And>n. vkResult drv n = VK_SUCCESS" and dev: "physDevs drv \<noteq> []"
  shows "\<exists>s. initialize drv s0 = Inr s"
proof -
  obtain s1 where h1: "initializeInstance drv s0 = Inr s1"
    by (simp add: initializeInstance_eq Let_def ok)
  obtain s2 where h2: "selectPhysicalDevice drv s1 = Inr s2"
    using dev by (cases "physDevs drv") (simp_all add: selectPhysicalDevice_eq)
  obtain s3 where h3: "(let (q, sa) = searchGraphicsQueueIndex drv s2
          in Inr (sa\<lparr>m_graphicsQueueIndex := q\<rparr>)) = (Inr s3 :: fault + VulkanAppBase)"
    by (simp add: searchGraphicsQueueIndex_eq)
  obtain s4 where h4: "createDevice drv s3 = Inr s4"
    by (simp add: createDevice_eq Let_def ok)
  obtain s5 where h5: "prepareCommandPool drv s4 = Inr s5"
    by (simp add: prepareCommandPool_eq Let_def ok)
  obtain s6 where h6: "createWindowSurface drv s5 = Inr s6"
    by (simp add: createWindowSurface_eq)
  obtain s7 where h7: "selectSurfaceFormat VK_FORMAT_B8G8R8A8_UNORM drv s6 = Inr s7"
    by (simp add: selectSurfaceFormat_eq)
  obtain s8 where h8: "getSurfaceCapabilities drv s7 = Inr s8"
    by (simp add: getSurfaceCapabilities_eq)
  obtain s9 where h9: "createSwapchain drv s8 = Inr s9"
    by (simp add: createSwapchain_eq Let_def ok)
  obtain s10 where h10: "createDepthBuffer drv s9 = Inr s10"
    by (simp add: createDepthBuffer_eq Let_def ok)
  obtain s11 where h11: "createViews drv s10 = Inr s11"
    using createViews_total [OF ok] by blast
  obtain s12 where h12: "createRenderPass drv s11 = Inr s12"
    by (simp add: createRenderPass_eq Let_def ok)
  obtain s13 where h13: "createFramebuffer drv s12 = Inr s13"
    using createFramebuffer_loop_total [OF ok] by (auto simp: createFramebuffer_def)
  obtain s14 where h14: "prepareCommandBuffers drv s13 = Inr s14"
    using prepareCommandBuffers_loop_total [OF ok]
    by (auto simp: prepareCommandBuffers_eq Let_def ok)
  obtain s15 where h15: "prepareSemaphores drv s14 = Inr s15"
    by (simp add: prepareSemaphores_eq Let_def)
  show ?thesis
    unfolding initialize_def
    by (simp only: h1 h2 h3 h4 h5 h6 h7 h8 h9 h10 h11 h12 h13 h14 h15 andThen_simps) blast
qed

lemma destroyAll_eq:
  "destroyAll k vs s = s\<lparr>driverCalls := driverCalls s @ map (Destroy k) vs\<rparr>"
  by (induction vs arbitrary: s) (simp_all add: emit_def)

lemma terminate_calls:
  "driverCalls (terminate drv s) =
     driverCalls s @
     [DeviceWaitIdle (vkResult drv (length (driverCalls s))), Cleanup,
      FreeCommandBuffers (m_commandPool s) (m_commands s),
      Destroy RenderPass (m_renderPass s)] @
     map (Destroy Framebuffer) (m_framebuffers s) @
     [Destroy Swapchain (m_swapchain s)] @
     map (Destroy Fence) (m_fences s) @
     [Destroy Semaphore (m_presentCompletedSem s), Destroy Semaphore (m_renderCompletedSem s),
      Destroy CommandPool (m_commandPool s), Destroy Surface (m_surface s),
      Destroy Device (m_device s), Destroy Instance (m_instance s)]"
  apply (simp only: terminate_def Let_def res_def destroyAll_eq)
  apply (simp only: emit_fields VulkanAppBase.simps)
  apply (simp add: emit_def)
  done

lemma frameCalls_frameEvent: "list_all frameEvent (frameCalls drv s)"
  by (simp add: frameCalls_def Let_def)

lemma renders_steps:
  "renders drv n s = Inr s' \<Longrightarrow>
     \<exists>fs. driverCalls s' = driverCalls s @ fs \<and> list_all frameEvent fs
       \<and> tracked s' = tracked s"
proof (induction n arbitrary: s)
  case 0
  then show ?case by simp
next
  case (Suc n)
  from Suc.prems obtain s1 where r: "render drv s = Inr s1" and rest: "renders drv n s1 = Inr s'"
    by (auto simp: andThen_Inr_iff)
  from r have s1: "driverCalls s1 = driverCalls s @ frameCalls drv s" "tracked s1 = tracked s"
    by (auto simp: render_eq tracked_def split: if_splits)
  from Suc.IH [OF rest] obtain fs where "driverCalls s' = driverCalls s1 @ fs"
    "list_all frameEvent fs" "tracked s' = tracked s1" by blast
  with s1 frameCalls_frameEvent [of drv s]
  have "driverCalls s' = driverCalls s @ (frameCalls drv s @ fs)
      \<and> list_all frameEvent (frameCalls drv s @ fs) \<and> tracked s' = tracked s"
    by simp
  then show ?case by blast
qed

lemma initEvent_checked: "initEvent e \<Longrightarrow> checkedCall e \<Longrightarrow> resultCode e = Some VK_SUCCESS"
  by (cases e) auto

lemma initEvent_not_Destroy: "initEvent e \<Longrightarrow> e \<noteq> Destroy k h"
  by (cases e) auto

lemma frameEvent_not_Destroy: "frameEvent e \<Longrightarrow> e \<noteq> Destroy k h"
  by (cases e) auto

lemma frameEvent_not_Create: "frameEvent e \<Longrightarrow> e \<noteq> Create k ci h r"
  by (cases e) auto

lemma initEvent_Fence: "initEvent (Create Fence ci f r) \<Longrightarrow> ci = FenceCI VK_FENCE_CREATE_SIGNALED_BIT"
  by simp

lemma fenceStep_initEvent:
  "initEvent e \<Longrightarrow>
     \<exists>sig'. fenceStep (sig, w, ok) e = (sig', w, ok) \<and> set sig \<subseteq> set sig'
       \<and> (\<forall>f r. e = Create Fence (FenceCI VK_FENCE_CREATE_SIGNALED_BIT) f r \<longrightarrow> f \<in> set sig')"
  by (cases e) (auto simp: fenceStep_def VK_FENCE_CREATE_SIGNALED_BIT_def)

lemma fence_scan_init:
  "list_all initEvent es \<Longrightarrow>
     \<exists>sig'. foldl fenceStep (sig, w, ok) es = (sig', w, ok) \<and> set sig \<subseteq> set sig'
       \<and> (\<forall>f r. Create Fence (FenceCI VK_FENCE_CREATE_SIGNALED_BIT) f r \<in> set es
             \<longrightarrow> f \<in> set sig')"
proof (induction es arbitrary: sig)
  case Nil
  then show ?case by simp
next
  case (Cons e es)
  from Cons.prems have e: "initEvent e" and es: "list_all initEvent es" by simp_all
  from fenceStep_initEvent [OF e, of sig w ok] obtain sig1 where
    1: "fenceStep (sig, w, ok) e = (sig1, w, ok)" and 2: "set sig \<subseteq> set sig1" and
    3: "\<forall>f r. e = Create Fence (FenceCI VK_FENCE_CREATE_SIGNALED_BIT) f r \<longrightarrow> f \<in> set sig1"
    by blast
  from Cons.IH [OF es, of sig1] obtain sig2 where
    4: "foldl fenceStep (sig1, w, ok) es = (sig2, w, ok)" and 5: "set sig1 \<subseteq> set sig2" and
    6: "\<forall>f r. Create Fence (FenceCI VK_FENCE_CREATE_SIGNALED_BIT) f r \<in> set es
             \<longrightarrow> f \<in> set sig2"
    by blast
  from 1 4 have "foldl fenceStep (sig, w, ok) (e # es) = (sig2, w, ok)" by simp
  moreover from 2 5 have "set sig \<subseteq> set sig2" by blast
  moreover from 3 5 6 have "\<forall>f r. Create Fence (FenceCI VK_FENCE_CREATE_SIGNALED_BIT) f r
      \<in> set (e # es) \<longrightarrow> f \<in> set sig2" by auto
  ultimately show ?case by blast
qed

lemma fence_scan_frame:
  assumes i: "unat (acquiredIndex drv (length (driverCalls s))) < length (m_fences s)"
    and inv: "\<forall>g\<in>set (m_fences s). g \<in> set w \<or> g \<in> set sig"
  shows "\<exists>sig' w'. foldl fenceStep (sig, w, True) (frameCalls drv s) = (sig', w', True)
       \<and> (\<forall>g\<in>set (m_fences s). g \<in> set w' \<or> g \<in> set sig')"
proof -
  let ?f = "m_fences s ! unat (acquiredIndex drv (length (driverCalls s)))"
  from i have mem: "?f \<in> set (m_fences s)" by simp
  with inv have ready: "?f \<in> set w \<or> ?f \<in> set sig" by blast
  have "foldl fenceStep (sig, w, True) (frameCalls drv s) =
      (removeAll ?f (?f # sig), ?f # w, True)"
    using ready by (simp add: frameCalls_def Let_def fenceStep_def)
  moreover have "\<forall>g\<in>set (m_fences s). g \<in> set (?f # w) \<or> g \<in> set (removeAll ?f (?f # sig))"
    using inv by auto
  ultimately show ?thesis by blast
qed

lemma renders_fences:
  "renders drv n s = Inr s' \<Longrightarrow>
     \<exists>fs. driverCalls s' = driverCalls s @ fs
       \<and> (\<forall>sig w. (\<forall>g\<in>set (m_fences s). g \<in> set w \<or> g \<in> set sig) \<longrightarrow>
             (\<exists>sig' w'. foldl fenceStep (sig, w, True) fs = (sig', w', True)))"
proof (induction n arbitrary: s)
  case 0
  then show ?case by simp
next
  case (Suc n)
  from Suc.prems obtain s1 where r: "render drv s = Inr s1" and rest: "renders drv n s1 = Inr s'"
    by (auto simp: andThen_Inr_iff)
  from r have i: "unat (acquiredIndex drv (length (driverCalls s))) < length (m_fences s)"
    and calls: "driverCalls s1 = driverCalls s @ frameCalls drv s"
    and same: "m_fences s1 = m_fences s"
    by (auto simp: render_eq split: if_splits)
  from Suc.IH [OF rest] obtain fs where fs: "driverCalls s' = driverCalls s1 @ fs"
    and later: "\<forall>sig w. (\<forall>g\<in>set (m_fences s1). g \<in> set w \<or> g \<in> set sig) \<longrightarrow>
             (\<exists>sig' w'. foldl fenceStep (sig, w, True) fs = (sig', w', True))"
    by blast
  have "\<exists>sig' w'. foldl fenceStep (sig, w, True) (frameCalls drv s @ fs) = (sig', w', True)"
    if inv: "\<forall>g\<in>set (m_fences s). g \<in> set w \<or> g \<in> set sig" for sig w
  proof -
    from fence_scan_frame [OF i inv] obtain sig1 w1 where
      1: "foldl fenceStep (sig, w, True) (frameCalls drv s) = (sig1, w1, True)" and
      2: "\<forall>g\<in>set (m_fences s). g \<in> set w1 \<or> g \<in> set sig1" by blast
    from later 2 same obtain sig2 w2 where
      "foldl fenceStep (sig1, w1, True) fs = (sig2, w2, True)" by metis
    with 1 show ?thesis by simp
  qed
  with fs calls show ?case by (intro exI [of _ "frameCalls drv s @ fs"]) simp
qed


section \<open>What initialization and frames make\<close>

lemma created_simps [simp]:
  "created k [] = []"
  "created k (e # es) = createdBy k e @ created k es"
  "created k (es @ es') = created k es @ created k es'"
  by (simp_all add: created_def)

lemma allocated_simps [simp]:
  "allocated l [] = []"
  "allocated l (e # es) = allocatedBy l e @ allocated l es"
  "allocated l (es @ es') = allocated l es @ allocated l es'"
  by (simp_all add: allocated_def)

lemma quiet_simps [simp]:
  "quiet []"
  "quiet (es @ es') \<longleftrightarrow> quiet es \<and> quiet es'"
  by (auto simp: quiet_def)

lemma allocatesNone_allocatedBy: "allocatesNone e \<Longrightarrow> allocatedBy l e = []"
  by (cases e) simp_all

lemma quiet_allocated: "quiet es \<Longrightarrow> allocated l es = []"
  by (induction es) (simp_all add: quiet_def allocatesNone_allocatedBy)

lemma frameEvent_makes_nothing: "frameEvent e \<Longrightarrow> createdBy k e = [] \<and> allocatedBy l e = []"
  by (cases e) auto

lemma frames_make_nothing:
  "list_all frameEvent fs \<Longrightarrow> created k fs = [] \<and> allocated l fs = []"
  by (induction fs) (auto simp: frameEvent_makes_nothing)

lemma initStep_new: "initStep s s' es \<Longrightarrow> drop (length (driverCalls s)) (driverCalls s') = es"
  by (simp add: initStep_def)

lemma initializeInstance_quiet:
  "initializeInstance drv s = Inr s' \<Longrightarrow> quiet (drop (length (driverCalls s)) (driverCalls s'))"
  by (auto simp: initializeInstance_eq Let_def quiet_def split: if_splits)

lemma selectPhysicalDevice_quiet:
  "selectPhysicalDevice drv s = Inr s' \<Longrightarrow> quiet (drop (length (driverCalls s)) (driverCalls s'))"
  by (auto simp: selectPhysicalDevice_eq Let_def quiet_def split: list.splits)

lemma searchGraphicsQueueIndex_quiet:
  "(let (q, s1) = searchGraphicsQueueIndex drv s in Inr (s1\<lparr>m_graphicsQueueIndex := q\<rparr>))
     = Inr s' \<Longrightarrow> quiet (drop (length (driverCalls s)) (driverCalls s'))"
  by (auto simp: searchGraphicsQueueIndex_eq Let_def quiet_def)

lemma createDevice_quiet:
  "createDevice drv s = Inr s' \<Longrightarrow> quiet (drop (length (driverCalls s)) (driverCalls s'))"
  by (auto simp: createDevice_eq Let_def quiet_def split: if_splits)

lemma prepareCommandPool_quiet:
  "prepareCommandPool drv s = Inr s' \<Longrightarrow> quiet (drop (length (driverCalls s)) (driverCalls s'))"
  by (auto simp: prepareCommandPool_eq Let_def quiet_def split: if_splits)

lemma createWindowSurface_quiet:
  "createWindowSurface drv s = Inr s' \<Longrightarrow> quiet (drop (length (driverCalls s)) (driverCalls s'))"
  by (auto simp: createWindowSurface_eq Let_def quiet_def)

lemma selectSurfaceFormat_quiet:
  "selectSurfaceFormat fmt drv s = Inr s' \<Longrightarrow>
     quiet (drop (length (driverCalls s)) (driverCalls s'))"
  by (auto simp: selectSurfaceFormat_eq Let_def quiet_def)

lemma getSurfaceCapabilities_quiet:
  "getSurfaceCapabilities drv s = Inr s' \<Longrightarrow>
     quiet (drop (length (driverCalls s)) (driverCalls s'))"
  by (auto simp: getSurfaceCapabilities_eq Let_def quiet_def)

lemma createSwapchain_quiet:
  "createSwapchain drv s = Inr s' \<Longrightarrow> quiet (drop (length (driverCalls s)) (driverCalls s'))"
  by (auto simp: createSwapchain_eq Let_def quiet_def split: if_splits)

lemma createDepthBuffer_quiet:
  "createDepthBuffer drv s = Inr s' \<Longrightarrow> quiet (drop (length (driverCalls s)) (driverCalls s'))"
  by (auto simp: createDepthBuffer_eq Let_def quiet_def split: if_splits)

lemma createRenderPass_quiet:
  "createRenderPass drv s = Inr s' \<Longrightarrow> quiet (drop (length (driverCalls s)) (driverCalls s'))"
  by (auto simp: createRenderPass_eq Let_def quiet_def split: if_splits)

lemma prepareSemaphores_quiet:
  "prepareSemaphores drv s = Inr s' \<Longrightarrow> quiet (drop (length (driverCalls s)) (driverCalls s'))"
  by (auto simp: prepareSemaphores_eq Let_def quiet_def)

lemma createViews_loop_quiet:
  "createViews_loop drv idxs s = Inr s' \<Longrightarrow>
     quiet (drop (length (driverCalls s)) (driverCalls s'))"
proof (induction idxs arbitrary: s)
  case Nil
  then show ?case by simp
next
  case (Cons i idxs)
  let ?n = "length (driverCalls s)"
  let ?e = "Create ImageView
              (ImageViewCI (m_swapchainImages s ! i) (format (m_surfaceFormat s))
                 VK_IMAGE_ASPECT_COLOR_BIT)
              (newHandle drv ?n 0) (vkResult drv ?n)"
  let ?s1 = "s\<lparr>m_swapchainViews := (m_swapchainViews s)[i := newHandle drv ?n 0],
               driverCalls := driverCalls s @ [?e]\<rparr>"
  from Cons.prems have rest: "createViews_loop drv idxs ?s1 = Inr s'"
    by (simp_all add: createViews_loop_Cons Let_def split: if_splits)
  from createViews_loop_step [OF rest] obtain es where es: "driverCalls s' = driverCalls ?s1 @ es"
    by (auto simp: initStep_def)
  from Cons.IH [OF rest] es have "quiet es" by simp
  moreover have "quiet [?e]" by (simp add: quiet_def)
  ultimately show ?case using es by (simp add: quiet_def)
qed

lemma createViews_made:
  assumes a: "createViews drv s = Inr s'"
  shows "quiet (drop (length (driverCalls s)) (driverCalls s'))
     \<and> m_swapchainImages s' = map (swapchainImage drv) [0..<unat (swapchainImageCount drv)]"
proof -
  let ?n = "unat (swapchainImageCount drv)"
  let ?q = "[Query GetSwapchainImagesKHR, Query GetSwapchainImagesKHR]"
  let ?s3 = "s\<lparr>m_swapchainImages := map (swapchainImage drv) [0..<?n],
                 m_swapchainViews := resize ?n (m_swapchainViews s),
                 driverCalls := driverCalls s @ ?q\<rparr>"
  from a obtain s4 where loop: "createViews_loop drv [0..<?n] ?s3 = Inr s4"
    and s': "s' = s4\<lparr>driverCalls := driverCalls s4 @
                [Create ImageView
                   (ImageViewCI (m_depthBuffer s4) VK_FORMAT_D32_SFLOAT VK_IMAGE_ASPECT_DEPTH_BIT)
                   (newHandle drv (length (driverCalls s4)) 0)
                   (vkResult drv (length (driverCalls s4)))],
              m_depthBufferView := newHandle drv (length (driverCalls s4)) 0\<rparr>"
    by (auto simp: createViews_eq Let_def andThen_Inr_iff split: if_splits)
  from createViews_loop_step [OF loop] obtain es where es: "driverCalls s4 = driverCalls ?s3 @ es"
    and tr: "tracked s4 = tracked (?s3\<lparr>m_swapchainViews := m_swapchainViews s4\<rparr>)"
    by (auto simp: initStep_def)
  from createViews_loop_quiet [OF loop] es have "quiet es" by simp
  then have 1: "quiet (drop (length (driverCalls s)) (driverCalls s'))"
    using es s' by (simp add: quiet_def)
  from tr s' have 2: "m_swapchainImages s' = map (swapchainImage drv) [0..<?n]"
    by (simp add: tracked_def)
  from 1 2 show ?thesis by blast
qed

lemma createFramebuffer_loop_made:
  "createFramebuffer_loop drv vs s = Inr s' \<Longrightarrow>
     m_framebuffers s' =
       m_framebuffers s @ created Framebuffer (drop (length (driverCalls s)) (driverCalls s'))
   \<and> created Fence (drop (length (driverCalls s)) (driverCalls s')) = []
   \<and> (\<forall>l. allocated l (drop (length (driverCalls s)) (driverCalls s')) = [])"
proof (induction vs arbitrary: s)
  case Nil
  then show ?case by simp
next
  case (Cons v vs)
  let ?n = "length (driverCalls s)"
  let ?e = "Create Framebuffer
              (FramebufferCI (m_renderPass s) [v, m_depthBufferView s] (m_swapchainExtent s))
              (newHandle drv ?n 0) (vkResult drv ?n)"
  let ?s1 = "s\<lparr>m_framebuffers := m_framebuffers s @ [newHandle drv ?n 0],
               driverCalls := driverCalls s @ [?e]\<rparr>"
  from Cons.prems have rest: "createFramebuffer_loop drv vs ?s1 = Inr s'"
    by (simp_all add: createFramebuffer_loop_Cons Let_def split: if_splits)
  from createFramebuffer_loop_step [OF rest] obtain es where
    es: "driverCalls s' = driverCalls ?s1 @ es"
    by (auto simp: initStep_def)
  from Cons.IH [OF rest] es have "m_framebuffers s' = m_framebuffers ?s1 @ created Framebuffer es"
    "created Fence es = []" "\<forall>l. allocated l es = []" by simp_all
  then show ?case using es by simp
qed

lemma createFramebuffer_made:
  "createFramebuffer drv s = Inr s' \<Longrightarrow>
     m_framebuffers s' = created Framebuffer (drop (length (driverCalls s)) (driverCalls s'))
   \<and> created Fence (drop (length (driverCalls s)) (driverCalls s')) = []
   \<and> (\<forall>l. allocated l (drop (length (driverCalls s)) (driverCalls s')) = [])"
  using createFramebuffer_loop_made [of drv "m_swapchainViews s" "s\<lparr>m_framebuffers := []\<rparr>" s']
  by (simp add: createFramebuffer_def)

lemma prepareCommandBuffers_loop_made:
  "prepareCommandBuffers_loop drv idxs s = Inr s' \<Longrightarrow> distinct idxs \<Longrightarrow>
   \<forall>i\<in>set idxs. i < length (m_fences s) \<Longrightarrow>
     created Fence (drop (length (driverCalls s)) (driverCalls s')) = map ((!) (m_fences s')) idxs
   \<and> created Framebuffer (drop (length (driverCalls s)) (driverCalls s')) = []
   \<and> (\<forall>l. allocated l (drop (length (driverCalls s)) (driverCalls s')) = [])"
proof (induction idxs arbitrary: s)
  case Nil
  then show ?case by simp
next
  case (Cons i idxs)
  let ?n = "length (driverCalls s)"
  let ?h = "newHandle drv ?n 0"
  let ?e = "Create Fence (FenceCI VK_FENCE_CREATE_SIGNALED_BIT) ?h (vkResult drv ?n)"
  let ?s1 = "s\<lparr>m_fences := (m_fences s)[i := ?h], driverCalls := driverCalls s @ [?e]\<rparr>"
  from Cons.prems(1) have rest: "prepareCommandBuffers_loop drv idxs ?s1 = Inr s'"
    by (simp_all add: prepareCommandBuffers_loop_Cons Let_def split: if_splits)
  from Cons.prems(2) have d: "distinct idxs" and fresh: "i \<notin> set idxs" by simp_all
  from Cons.prems(3) have i: "i < length (m_fences s)"
    and bound: "\<forall>k\<in>set idxs. k < length (m_fences ?s1)" by simp_all
  from prepareCommandBuffers_loop_step [OF rest d bound] obtain es where
    es: "driverCalls s' = driverCalls ?s1 @ es"
    and keep: "\<forall>j. j \<notin> set idxs \<longrightarrow> m_fences s' ! j = m_fences ?s1 ! j"
    by (auto simp: initStep_def)
  from keep fresh i have here: "m_fences s' ! i = ?h" by simp
  from Cons.IH [OF rest d bound] es have "created Fence es = map ((!) (m_fences s')) idxs"
    "created Framebuffer es = []" "\<forall>l. allocated l es = []" by simp_all
  then show ?case using es here by simp
qed

lemma prepareCommandBuffers_made:
  assumes a: "prepareCommandBuffers drv s = Inr s'"
  shows "created Fence (drop (length (driverCalls s)) (driverCalls s')) = m_fences s'
     \<and> allocated VK_COMMAND_BUFFER_LEVEL_PRIMARY (drop (length (driverCalls s)) (driverCalls s'))
         = m_commands s'
     \<and> (\<forall>l. l \<noteq> VK_COMMAND_BUFFER_LEVEL_PRIMARY \<longrightarrow>
           allocated l (drop (length (driverCalls s)) (driverCalls s')) = [])
     \<and> created Framebuffer (drop (length (driverCalls s)) (driverCalls s')) = []"
proof -
  let ?n = "unat (of_nat (length (m_swapchainViews s)) :: u32)"
  let ?k = "length (driverCalls s)"
  let ?hs = "map (newHandle drv ?k) [0..<?n]"
  let ?e = "AllocateCommandBuffers (m_commandPool s) VK_COMMAND_BUFFER_LEVEL_PRIMARY ?hs
              (vkResult drv ?k)"
  let ?s1 = "s\<lparr>m_commands := ?hs, m_fences := resize ?n (m_fences s),
               driverCalls := driverCalls s @ [?e]\<rparr>"
  from a have loop: "prepareCommandBuffers_loop drv [0..<?n] ?s1 = Inr s'"
    by (simp_all add: prepareCommandBuffers_eq Let_def split: if_splits)
  have bound: "\<forall>i\<in>set [0..<?n]. i < length (m_fences ?s1)" by simp
  from prepareCommandBuffers_loop_step [OF loop distinct_upt bound]
  obtain es where es: "driverCalls s' = driverCalls ?s1 @ es"
    and len: "length (m_fences s') = length (m_fences ?s1)"
    and tr: "tracked s' = tracked (?s1\<lparr>m_fences := m_fences s'\<rparr>)"
    by (auto simp: initStep_def)
  from prepareCommandBuffers_loop_made [OF loop distinct_upt bound] es
  have m: "created Fence es = map ((!) (m_fences s')) [0..<?n]"
    "created Framebuffer es = []" "\<forall>l. allocated l es = []" by simp_all
  from len have "length (m_fences s') = ?n" by simp
  then have "map ((!) (m_fences s')) [0..<?n] = m_fences s'" by (metis map_nth)
  with m have 1: "created Fence es = m_fences s'" by simp
  from tr have 2: "m_commands s' = ?hs" by (simp add: tracked_def)
  from 1 2 m es show ?thesis by simp
qed

lemma initialize_made:
  assumes "initialize drv s0 = Inr s"
  shows "created Framebuffer (drop (length (driverCalls s0)) (driverCalls s)) = m_framebuffers s
     \<and> created Fence (drop (length (driverCalls s0)) (driverCalls s)) = m_fences s
     \<and> allocated VK_COMMAND_BUFFER_LEVEL_PRIMARY
           (drop (length (driverCalls s0)) (driverCalls s)) = m_commands s
     \<and> (\<forall>l. l \<noteq> VK_COMMAND_BUFFER_LEVEL_PRIMARY \<longrightarrow>
           allocated l (drop (length (driverCalls s0)) (driverCalls s)) = [])
     \<and> m_swapchainImages s = map (swapchainImage drv) [0..<unat (swapchainImageCount drv)]"
proof -
  from assms [unfolded initialize_def andThen_Inr_iff]
  obtain s1 s2 s3 s4 s5 s6 s7 s8 s9 s10 s11 s12 s13 s14 s15 where
    h1: "initializeInstance drv s0 = Inr s1" and
    h2: "selectPhysicalDevice drv s1 = Inr s2" and
    h3: "(let (q, sa) = searchGraphicsQueueIndex drv s2
          in Inr (sa\<lparr>m_graphicsQueueIndex := q\<rparr>)) = (Inr s3 :: fault + VulkanAppBase)" and
    h4: "createDevice drv s3 = Inr s4" and
    h5: "prepareCommandPool drv s4 = Inr s5" and
    h6: "createWindowSurface drv s5 = Inr s6" and
    h7: "selectSurfaceFormat VK_FORMAT_B8G8R8A8_UNORM drv s6 = Inr s7" and
    h8: "getSurfaceCapabilities drv s7 = Inr s8" and
    h9: "createSwapchain drv s8 = Inr s9" and
    h10: "createDepthBuffer drv s9 = Inr s10" and
    h11: "createViews drv s10 = Inr s11" and
    h12: "createRenderPass drv s11 = Inr s12" and
    h13: "createFramebuffer drv s12 = Inr s13" and
    h14: "prepareCommandBuffers drv s13 = Inr s14" and
    h15: "prepareSemaphores drv s14 = Inr s15" and
    h16: "Inr (emit Prepare s15) = (Inr s :: fault + VulkanAppBase)"
    by (elim exE conjE) (rule that)
  from initializeInstance_step [OF h1] obtain e1 where e1: "initStep s0 s1 e1" by blast
  from selectPhysicalDevice_step [OF h2] obtain e2 where e2: "initStep s1 s2 e2" by blast
  from searchGraphicsQueueIndex_step [OF h3] obtain e3 where e3: "initStep s2 s3 e3" by blast
  from createDevice_step [OF h4] obtain e4 where e4: "initStep s3 s4 e4" by blast
  from prepareCommandPool_step [OF h5] obtain e5 where e5: "initStep s4 s5 e5" by blast
  from createWindowSurface_step [OF h6] obtain e6 where e6: "initStep s5 s6 e6" by blast
  from selectSurfaceFormat_step [OF h7] obtain e7 where e7: "initStep s6 s7 e7" by blast
  from getSurfaceCapabilities_step [OF h8] obtain e8 where e8: "initStep s7 s8 e8" by blast
  from createSwapchain_step [OF h9] obtain e9 where e9: "initStep s8 s9 e9" by blast
  from createDepthBuffer_step [OF h10] obtain e10 where e10: "initStep s9 s10 e10" by blast
  from createViews_step [OF h11] obtain e11 where e11: "initStep s10 s11 e11" by blast
  from createRenderPass_step [OF h12] obtain e12 where
    e12: "initStep s11 s12 e12" and t12: "tracked s12 = tracked s11" by blast
  from createFramebuffer_step [OF h13] obtain e13 where
    e13: "initStep s12 s13 e13" and
    t13: "tracked s13 = tracked (s12\<lparr>m_framebuffers := m_framebuffers s13\<rparr>)" by blast
  from prepareCommandBuffers_step [OF h14] obtain e14 where
    e14: "initStep s13 s14 e14" and
    t14: "tracked s14 = tracked (s13\<lparr>m_commands := m_commands s14, m_fences := m_fences s14\<rparr>)"
    by blast
  from prepareSemaphores_step [OF h15] obtain e15 where
    e15: "initStep s14 s15 e15" and t15: "tracked s15 = tracked s14" by blast
  from h16 have s: "s = emit Prepare s15" by simp
  have t16: "tracked s = tracked s15" by (simp add: s tracked_def)
  have q1: "quiet e1" using initializeInstance_quiet [OF h1] initStep_new [OF e1] by simp
  have q2: "quiet e2" using selectPhysicalDevice_quiet [OF h2] initStep_new [OF e2] by simp
  have q3: "quiet e3" using searchGraphicsQueueIndex_quiet [OF h3] initStep_new [OF e3] by simp
  have q4: "quiet e4" using createDevice_quiet [OF h4] initStep_new [OF e4] by simp
  have q5: "quiet e5" using prepareCommandPool_quiet [OF h5] initStep_new [OF e5] by simp
  have q6: "quiet e6" using createWindowSurface_quiet [OF h6] initStep_new [OF e6] by simp
  have q7: "quiet e7" using selectSurfaceFormat_quiet [OF h7] initStep_new [OF e7] by simp
  have q8: "quiet e8" using getSurfaceCapabilities_quiet [OF h8] initStep_new [OF e8] by simp
  have q9: "quiet e9" using createSwapchain_quiet [OF h9] initStep_new [OF e9] by simp
  have q10: "quiet e10" using createDepthBuffer_quiet [OF h10] initStep_new [OF e10] by simp
  have q11: "quiet e11" and imgs: "m_swapchainImages s11 =
      map (swapchainImage drv) [0..<unat (swapchainImageCount drv)]"
    using createViews_made [OF h11] initStep_new [OF e11] by simp_all
  have q12: "quiet e12" using createRenderPass_quiet [OF h12] initStep_new [OF e12] by simp
  have m13: "m_framebuffers s13 = created Framebuffer e13" "created Fence e13 = []"
    "\<forall>l. allocated l e13 = []"
    using createFramebuffer_made [OF h13] initStep_new [OF e13] by simp_all
  have m14: "created Fence e14 = m_fences s14"
    "allocated VK_COMMAND_BUFFER_LEVEL_PRIMARY e14 = m_commands s14"
    "\<forall>l. l \<noteq> VK_COMMAND_BUFFER_LEVEL_PRIMARY \<longrightarrow> allocated l e14 = []"
    "created Framebuffer e14 = []"
    using prepareCommandBuffers_made [OF h14] initStep_new [OF e14] by simp_all
  have q15: "quiet e15" using prepareSemaphores_quiet [OF h15] initStep_new [OF e15] by simp
  let ?es = "e1 @ e2 @ e3 @ e4 @ e5 @ e6 @ e7 @ e8 @ e9 @ e10 @ e11 @ e12 @ e13 @ e14 @ e15
             @ [Prepare]"
  from e1 e2 e3 e4 e5 e6 e7 e8 e9 e10 e11 e12 e13 e14 e15
  have new: "drop (length (driverCalls s0)) (driverCalls s) = ?es"
    by (simp add: initStep_def s)
  from t12 t13 t14 t15 t16 have
    eqs: "m_swapchainImages s = m_swapchainImages s11"
      "m_framebuffers s = m_framebuffers s13" "m_commands s = m_commands s14"
      "m_fences s = m_fences s14"
    by (simp_all add: tracked_def)
  from q1 q2 q3 q4 q5 q6 q7 q8 q9 q10 q11 q12 q15
  have quiets: "created Framebuffer e1 = []" "created Framebuffer e2 = []"
    "created Framebuffer e3 = []" "created Framebuffer e4 = []" "created Framebuffer e5 = []"
    "created Framebuffer e6 = []" "created Framebuffer e7 = []" "created Framebuffer e8 = []"
    "created Framebuffer e9 = []" "created Framebuffer e10 = []" "created Framebuffer e11 = []"
    "created Framebuffer e12 = []" "created Framebuffer e15 = []"
    "created Fence e1 = []" "created Fence e2 = []"
    "created Fence e3 = []" "created Fence e4 = []" "created Fence e5 = []"
    "created Fence e6 = []" "created Fence e7 = []" "created Fence e8 = []"
    "created Fence e9 = []" "created Fence e10 = []" "created Fence e11 = []"
    "created Fence e12 = []" "created Fence e15 = []"
    "\<And>l. allocated l e1 = []" "\<And>l. allocated l e2 = []"
    "\<And>l. allocated l e3 = []" "\<And>l. allocated l e4 = []" "\<And>l. allocated l e5 = []"
    "\<And>l. allocated l e6 = []" "\<And>l. allocated l e7 = []" "\<And>l. allocated l e8 = []"
    "\<And>l. allocated l e9 = []" "\<And>l. allocated l e10 = []" "\<And>l. allocated l e11 = []"
    "\<And>l. allocated l e12 = []" "\<And>l. allocated l e15 = []"
    by (simp_all add: quiet_def quiet_allocated)
  have 1: "created Framebuffer ?es = m_framebuffers s"
    using quiets m13 m14 eqs by simp
  have 2: "created Fence ?es = m_fences s"
    using quiets m13 m14 eqs by simp
  have 3: "allocated VK_COMMAND_BUFFER_LEVEL_PRIMARY ?es = m_commands s"
    using quiets m13 m14 eqs by simp
  have 4: "\<forall>l. l \<noteq> VK_COMMAND_BUFFER_LEVEL_PRIMARY \<longrightarrow> allocated l ?es = []"
    using quiets m13 m14 by simp
  from imgs eqs have 5: "m_swapchainImages s =
      map (swapchainImage drv) [0..<unat (swapchainImageCount drv)]" by simp
  from 1 2 3 4 5 show ?thesis unfolding new by blast
qed

lemma andThen_Inl_iff:
  "andThen m f = Inl e \<longleftrightarrow> m = Inl e \<or> (\<exists>x. m = Inr x \<and> f x = Inl e)"
  by (cases m) simp_all

lemma createViews_loop_fault:
  "createViews_loop drv idxs s = Inl e \<Longrightarrow> e = DebugBreak"
  by (induction idxs arbitrary: s) (auto simp: createViews_loop_Cons Let_def split: if_splits)

lemma createFramebuffer_loop_fault:
  "createFramebuffer_loop drv vs s = Inl e \<Longrightarrow> e = DebugBreak"
  by (induction vs arbitrary: s) (auto simp: createFramebuffer_loop_Cons Let_def split: if_splits)

lemma prepareCommandBuffers_loop_fault:
  "prepareCommandBuffers_loop drv idxs s = Inl e \<Longrightarrow> e = DebugBreak"
  by (induction idxs arbitrary: s)
    (auto simp: prepareCommandBuffers_loop_Cons Let_def split: if_splits)

lemma step_faults:
  "initializeInstance drv s = Inl e \<Longrightarrow> e = DebugBreak"
  "selectPhysicalDevice drv s = Inl e \<Longrightarrow> physDevs drv = []"
  "(let (q, s1) = searchGraphicsQueueIndex drv s in Inr (s1\<lparr>m_graphicsQueueIndex := q\<rparr>))
     = (Inl e :: fault + VulkanAppBase) \<Longrightarrow> False"
  "createDevice drv s = Inl e \<Longrightarrow> e = DebugBreak"
  "prepareCommandPool drv s = Inl e \<Longrightarrow> e = DebugBreak"
  "createWindowSurface drv s = Inl e \<Longrightarrow> False"
  "selectSurfaceFormat fmt drv s = Inl e \<Longrightarrow> False"
  "getSurfaceCapabilities drv s = Inl e \<Longrightarrow> False"
  "createSwapchain drv s = Inl e \<Longrightarrow> e = DebugBreak"
  "createDepthBuffer drv s = Inl e \<Longrightarrow> e = DebugBreak"
  "createViews drv s = Inl e \<Longrightarrow> e = DebugBreak"
  "createRenderPass drv s = Inl e \<Longrightarrow> e = DebugBreak"
  "createFramebuffer drv s = Inl e \<Longrightarrow> e = DebugBreak"
  "prepareCommandBuffers drv s = Inl e \<Longrightarrow> e = DebugBreak"
  "prepareSemaphores drv s = Inl e \<Longrightarrow> False"
                apply (simp add: initializeInstance_eq Let_def split: if_splits)
               apply (simp add: selectPhysicalDevice_eq split: list.splits)
              apply (simp add: searchGraphicsQueueIndex_eq)
             apply (simp add: createDevice_eq Let_def split: if_splits)
            apply (simp add: prepareCommandPool_eq Let_def split: if_splits)
           apply (simp add: createWindowSurface_eq)
          apply (simp add: selectSurfaceFormat_eq)
         apply (simp add: getSurfaceCapabilities_eq)
        apply (simp add: createSwapchain_eq Let_def split: if_splits)
       apply (simp add: createDepthBuffer_eq Let_def split: if_splits)
      apply (auto simp: createViews_eq Let_def andThen_Inl_iff split: if_splits
               dest: createViews_loop_fault)[1]
     apply (simp add: createRenderPass_eq Let_def split: if_splits)
    apply (auto simp: createFramebuffer_def dest: createFramebuffer_loop_fault)[1]
   apply (auto simp: prepareCommandBuffers_eq Let_def split: if_splits
            dest: prepareCommandBuffers_loop_fault)[1]
  apply (simp add: prepareSemaphores_eq Let_def)
  done

lemma initialize_fault:
  assumes "initialize drv s0 = Inl e"
  shows "e = DebugBreak \<or> physDevs drv = []"
  using assms unfolding initialize_def andThen_Inl_iff
  by (elim disjE exE conjE) (auto dest: step_faults simp: split_def Let_def)

lemma render_tracked: "render drv s = Inr s' \<Longrightarrow> tracked s' = tracked s"
  by (auto simp: render_eq tracked_def split: if_splits)

lemma renders_returns:
  "\<forall>k. unat (acquiredIndex drv k) < length (m_fences s) \<Longrightarrow>
   length (m_framebuffers s) = length (m_fences s) \<Longrightarrow>
   length (m_commands s) = length (m_fences s) \<Longrightarrow> \<exists>s'. renders drv n s = Inr s'"
proof (induction n arbitrary: s)
  case 0
  then show ?case by simp
next
  case (Suc n)
  from Suc.prems obtain s1 where r: "render drv s = Inr s1" by (simp add: render_eq)
  from render_tracked [OF r] have "m_fences s1 = m_fences s" "m_framebuffers s1 = m_framebuffers s"
    "m_commands s1 = m_commands s" by (simp_all add: tracked_def)
  with Suc.prems have "\<exists>s'. renders drv n s1 = Inr s'" by (intro Suc.IH) simp_all
  with r show ?case by simp
qed

section \<open>Claims about whole runs\<close>

lemma demo_ok: "vkResult demoDriver n = VK_SUCCESS"
  by (simp add: demoDriver_def)

lemma demo_dev: "physDevs demoDriver \<noteq> []"
  by (simp add: demoDriver_def)

lemma ctor_calls: "driverCalls (VulkanAppBase_ctor raw) = []"
  by (simp add: VulkanAppBase_ctor_def)

text \<open>
  Claim C5: a render call whose acquired index lies within the fence, framebuffer and
  command buffer arrays returns, and it appends exactly the calls of \<open>frameCalls\<close>,
  in that order: acquire, wait on the fence of the acquired index, begin the command
  buffer of that index, begin the render pass, the drawing callback, end the render
  pass, end the command buffer, reset that fence, submit, present. The fence reset
  comes before the submit.
\<close>
theorem render_order:
  "unat (acquiredIndex drv (length (driverCalls s))) < length (m_fences s) \<Longrightarrow>
   unat (acquiredIndex drv (length (driverCalls s))) < length (m_framebuffers s) \<Longrightarrow>
   unat (acquiredIndex drv (length (driverCalls s))) < length (m_commands s) \<Longrightarrow>
     \<exists>s'. render drv s = Inr s' \<and> driverCalls s' = driverCalls s @ frameCalls drv s"
  by (simp add: render_eq)

theorem render_order_witness:
  "\<exists>s s'. initialize demoDriver (VulkanAppBase_ctor blank) = Inr s
     \<and> render demoDriver s = Inr s'
     \<and> driverCalls s' = driverCalls s @
         [AcquireNextImage (m_swapchain s) (m_presentCompletedSem s) 1 0,
          WaitForFences (m_fences s ! 1) 0,
          BeginCommandBuffer (m_commands s ! 1) 0,
          CmdBeginRenderPass (m_commands s ! 1) (m_renderPass s) (m_framebuffers s ! 1)
            (m_swapchainExtent s),
          MakeCommand (m_commands s ! 1) 1,
          CmdEndRenderPass (m_commands s ! 1),
          EndCommandBuffer (m_commands s ! 1) 0,
          ResetFences (m_fences s ! 1) 0,
          QueueSubmit (m_commands s ! 1) (m_presentCompletedSem s) (m_renderCompletedSem s)
            (m_fences s ! 1) 0,
          QueuePresent (m_swapchain s) 1 (m_renderCompletedSem s) 0]"
proof -
  obtain s where h: "initialize demoDriver (VulkanAppBase_ctor blank) = Inr s"
    using initialize_total [OF demo_ok demo_dev] by blast
  have n: "unat (swapchainImageCount demoDriver) = 3" by (simp add: demoDriver_def)
  from initialize_steps [OF h] n have lens: "length (m_fences s) = 3"
    "length (m_framebuffers s) = 3" "length (m_commands s) = 3" by auto
  have idx: "acquiredIndex demoDriver k = 1" for k by (simp add: demoDriver_def)
  have "unat (acquiredIndex demoDriver (length (driverCalls s))) < length (m_fences s)"
    "unat (acquiredIndex demoDriver (length (driverCalls s))) < length (m_framebuffers s)"
    "unat (acquiredIndex demoDriver (length (driverCalls s))) < length (m_commands s)"
    by (simp_all add: idx lens)
  from render_order [OF this] obtain s' where r: "render demoDriver s = Inr s'"
    and c: "driverCalls s' = driverCalls s @ frameCalls demoDriver s" by blast
  have "frameCalls demoDriver s =
         [AcquireNextImage (m_swapchain s) (m_presentCompletedSem s) 1 0,
          WaitForFences (m_fences s ! 1) 0,
          BeginCommandBuffer (m_commands s ! 1) 0,
          CmdBeginRenderPass (m_commands s ! 1) (m_renderPass s) (m_framebuffers s ! 1)
            (m_swapchainExtent s),
          MakeCommand (m_commands s ! 1) 1,
          CmdEndRenderPass (m_commands s ! 1),
          EndCommandBuffer (m_commands s ! 1) 0,
          ResetFences (m_fences s ! 1) 0,
          QueueSubmit (m_commands s ! 1) (m_presentCompletedSem s) (m_renderCompletedSem s)
            (m_fences s ! 1) 0,
          QueuePresent (m_swapchain s) 1 (m_renderCompletedSem s) 0]"
    by (simp add: frameCalls_def Let_def idx demo_ok VK_SUCCESS_def)
  with h r c show ?thesis by (intro exI [of _ s] exI [of _ s']) (simp only: simp_thms)
qed

text \<open>
  Claim C6, as the code has it: with a driver whose calls all succeed and that has a
  physical device, \<open>initialize\<close> returns. When it returns, the swapchain was requested
  with \<open>max(2, m)\<close> images, \<open>m\<close> the minimum image count of the capability snapshot;
  the images are those the swapchain actually returned; the framebuffers are exactly
  those created, the fences exactly those created, and the command buffers exactly
  those allocated at the primary level, one of each per returned image, whatever
  number was requested.
\<close>
theorem initialize_counts_follow_actual_images:
  "((\<forall>n. vkResult drv n = VK_SUCCESS) \<and> physDevs drv \<noteq> [] \<longrightarrow>
      (\<exists>s. initialize drv s0 = Inr s))
   \<and> (initialize drv s0 = Inr s \<longrightarrow>
        (\<exists>surface fmt extent mode h r.
           Create Swapchain
             (SwapchainCI surface (max 2 (minImageCount (surfaceCaps drv))) fmt extent mode) h r
           \<in> set (drop (length (driverCalls s0)) (driverCalls s)))
      \<and> m_swapchainImages s = map (swapchainImage drv) [0..<unat (swapchainImageCount drv)]
      \<and> allocated VK_COMMAND_BUFFER_LEVEL_PRIMARY
           (drop (length (driverCalls s0)) (driverCalls s)) = m_commands s
      \<and> (\<forall>l. l \<noteq> VK_COMMAND_BUFFER_LEVEL_PRIMARY \<longrightarrow>
            allocated l (drop (length (driverCalls s0)) (driverCalls s)) = [])
      \<and> created Fence (drop (length (driverCalls s0)) (driverCalls s)) = m_fences s
      \<and> created Framebuffer (drop (length (driverCalls s0)) (driverCalls s)) = m_framebuffers s
      \<and> length (m_commands s) = length (m_swapchainImages s)
      \<and> length (m_fences s) = length (m_swapchainImages s)
      \<and> length (m_framebuffers s) = length (m_swapchainImages s))"
proof (intro conjI impI)
  assume "(\<forall>n. vkResult drv n = VK_SUCCESS) \<and> physDevs drv \<noteq> []"
  then show "\<exists>s. initialize drv s0 = Inr s" by (intro initialize_total) simp_all
next
  assume h: "initialize drv s0 = Inr s"
  from initialize_steps [OF h] obtain es where st: "initStep s0 s es"
    and sw: "\<exists>surface fmt extent mode h r.
        Create Swapchain
          (SwapchainCI surface (max 2 (minImageCount (surfaceCaps drv))) fmt extent mode) h r
        \<in> set es"
    and lens: "length (m_swapchainImages s) = unat (swapchainImageCount drv)"
      "length (m_framebuffers s) = unat (swapchainImageCount drv)"
      "length (m_commands s) = unat (swapchainImageCount drv)"
      "length (m_fences s) = unat (swapchainImageCount drv)"
    by blast
  from st have "drop (length (driverCalls s0)) (driverCalls s) = es"
    by (simp add: initStep_def)
  with sw show "\<exists>surface fmt extent mode h r.
           Create Swapchain
             (SwapchainCI surface (max 2 (minImageCount (surfaceCaps drv))) fmt extent mode) h r
           \<in> set (drop (length (driverCalls s0)) (driverCalls s))" by simp
  from initialize_made [OF h]
  show "m_swapchainImages s = map (swapchainImage drv) [0..<unat (swapchainImageCount drv)]"
    and "allocated VK_COMMAND_BUFFER_LEVEL_PRIMARY
           (drop (length (driverCalls s0)) (driverCalls s)) = m_commands s"
    and "\<forall>l. l \<noteq> VK_COMMAND_BUFFER_LEVEL_PRIMARY \<longrightarrow>
            allocated l (drop (length (driverCalls s0)) (driverCalls s)) = []"
    and "created Fence (drop (length (driverCalls s0)) (driverCalls s)) = m_fences s"
    and "created Framebuffer (drop (length (driverCalls s0)) (driverCalls s)) = m_framebuffers s"
    by blast+
  from lens show "length (m_commands s) = length (m_swapchainImages s)"
    and "length (m_fences s) = length (m_swapchainImages s)"
    and "length (m_framebuffers s) = length (m_swapchainImages s)" by simp_all
qed

theorem initialize_counts_follow_actual_images_witness:
  "\<exists>s. initialize demoDriver (VulkanAppBase_ctor blank) = Inr s
     \<and> m_swapchainImages s = [50, 51, 52]
     \<and> allocated VK_COMMAND_BUFFER_LEVEL_PRIMARY (driverCalls s) = m_commands s
     \<and> created Fence (driverCalls s) = m_fences s
     \<and> created Framebuffer (driverCalls s) = m_framebuffers s
     \<and> length (m_commands s) = 3 \<and> length (m_fences s) = 3 \<and> length (m_framebuffers s) = 3"
proof -
  note T = initialize_counts_follow_actual_images [of demoDriver "VulkanAppBase_ctor blank"]
  from T demo_ok demo_dev obtain s where
    h: "initialize demoDriver (VulkanAppBase_ctor blank) = Inr s" by blast
  have imgs: "map (swapchainImage demoDriver) [0..<unat (swapchainImageCount demoDriver)]
      = [50, 51, 52]"
    by (simp add: demoDriver_def upt_rec)
  from T [of s] h have
    "m_swapchainImages s = map (swapchainImage demoDriver) [0..<unat (swapchainImageCount demoDriver)]"
    "allocated VK_COMMAND_BUFFER_LEVEL_PRIMARY
       (drop (length (driverCalls (VulkanAppBase_ctor blank))) (driverCalls s)) = m_commands s"
    "created Fence (drop (length (driverCalls (VulkanAppBase_ctor blank))) (driverCalls s))
       = m_fences s"
    "created Framebuffer (drop (length (driverCalls (VulkanAppBase_ctor blank))) (driverCalls s))
       = m_framebuffers s"
    "length (m_commands s) = length (m_swapchainImages s)"
    "length (m_fences s) = length (m_swapchainImages s)"
    "length (m_framebuffers s) = length (m_swapchainImages s)"
    by blast+
  with imgs have "m_swapchainImages s = [50, 51, 52]
     \<and> allocated VK_COMMAND_BUFFER_LEVEL_PRIMARY (driverCalls s) = m_commands s
     \<and> created Fence (driverCalls s) = m_fences s
     \<and> created Framebuffer (driverCalls s) = m_framebuffers s
     \<and> length (m_commands s) = 3 \<and> length (m_fences s) = 3 \<and> length (m_framebuffers s) = 3"
    by (simp add: ctor_calls)
  with h show ?thesis by blast
qed

theorem initialize_counts_not_requested_counterexample:
  "max 2 (minImageCount (surfaceCaps demoDriver)) = 2
   \<and> map_sum id (length \<circ> m_commands) (initialize demoDriver (VulkanAppBase_ctor blank)) = Inr 3
   \<and> map_sum id (length \<circ> m_fences) (initialize demoDriver (VulkanAppBase_ctor blank)) = Inr 3"
proof -
  obtain s where h: "initialize demoDriver (VulkanAppBase_ctor blank) = Inr s"
    using initialize_total [OF demo_ok demo_dev] by blast
  have n: "unat (swapchainImageCount demoDriver) = 3" by (simp add: demoDriver_def)
  from initialize_steps [OF h] n have "length (m_commands s) = 3" "length (m_fences s) = 3"
    by auto
  moreover have "max 2 (minImageCount (surfaceCaps demoDriver)) = 2"
    by (simp add: demoDriver_def)
  ultimately show ?thesis by (simp add: h)
qed

lemma initialize_checked:
  assumes h: "initialize drv s0 = Inr s"
  shows "\<forall>e\<in>set (drop (length (driverCalls s0)) (driverCalls s)).
           checkedCall e \<longrightarrow> resultCode e = Some VK_SUCCESS"
proof -
  from initialize_steps [OF h] obtain es where "initStep s0 s es" by blast
  then have "drop (length (driverCalls s0)) (driverCalls s) = es" "\<forall>e\<in>set es. initEvent e"
    by (simp_all add: initStep_def list_all_iff)
  then show ?thesis using initEvent_checked by auto
qed

lemma initialize_returns_or_breaks:
  assumes dev: "physDevs drv \<noteq> []"
  shows "(\<exists>s. initialize drv s0 = Inr s)
     \<or> (initialize drv s0 = Inl DebugBreak \<and> (\<exists>n. vkResult drv n \<noteq> VK_SUCCESS))"
proof (cases "initialize drv s0")
  case (Inl e)
  with initialize_fault [of drv s0 e] dev have e: "e = DebugBreak" by simp
  have "\<exists>n. vkResult drv n \<noteq> VK_SUCCESS"
  proof (rule ccontr)
    assume "\<not> (\<exists>n. vkResult drv n \<noteq> VK_SUCCESS)"
    then have "\<And>n. vkResult drv n = VK_SUCCESS" by simp
    from initialize_total [OF this dev, of s0] Inl show False by simp
  qed
  with Inl e show ?thesis by simp
next
  case (Inr s)
  then show ?thesis by simp
qed

lemma initialize_instance_breaks:
  "vkResult drv (length (driverCalls s0) + 2) \<noteq> VK_SUCCESS \<Longrightarrow>
     initialize drv s0 = Inl DebugBreak"
  by (simp add: initialize_def initializeInstance_eq Let_def)

text \<open>
  Claim C4, as the code has it: \<open>checkResult\<close> stops at the debug break on every code
  other than success. \<open>initialize\<close> returns only if every creation call it checks
  (instance, device, command pool, swapchain, depth image, image views, render pass,
  framebuffers, fences, and the command buffer allocation) returned success; with a
  physical device present it either returns or stops at the debug break, and then
  some call did not succeed; it stops there when the instance creation fails.
  \<open>render\<close> checks no result code: whatever codes the driver returns, a frame whose
  acquired index is in range makes each of the calls of \<open>frameCalls\<close> once, none a
  second time, and returns; it never stops at the debug break, and whether it
  completes does not depend on the result codes.
\<close>
theorem checkResult_guards_creation_calls_only:
  "(checkResult r t = Inl DebugBreak \<longleftrightarrow> r \<noteq> VK_SUCCESS)
   \<and> (initialize drv s0 = Inr s \<longrightarrow>
        (\<forall>e\<in>set (drop (length (driverCalls s0)) (driverCalls s)).
           checkedCall e \<longrightarrow> resultCode e = Some VK_SUCCESS))
   \<and> (physDevs drv \<noteq> [] \<longrightarrow>
        (\<exists>s. initialize drv s0 = Inr s)
        \<or> (initialize drv s0 = Inl DebugBreak \<and> (\<exists>n. vkResult drv n \<noteq> VK_SUCCESS)))
   \<and> (vkResult drv (length (driverCalls s0) + 2) \<noteq> VK_SUCCESS \<longrightarrow>
        initialize drv s0 = Inl DebugBreak)
   \<and> render drv t \<noteq> Inl DebugBreak
   \<and> (unat (acquiredIndex drv (length (driverCalls t))) < length (m_fences t)
        \<and> unat (acquiredIndex drv (length (driverCalls t))) < length (m_framebuffers t)
        \<and> unat (acquiredIndex drv (length (driverCalls t))) < length (m_commands t)
      \<longrightarrow> render (drv\<lparr>vkResult := rs\<rparr>) t =
            Inr (t\<lparr>m_imageIndex := acquiredIndex drv (length (driverCalls t)),
                   driverCalls := driverCalls t @ frameCalls (drv\<lparr>vkResult := rs\<rparr>) t\<rparr>))
   \<and> ((\<exists>t'. render (drv\<lparr>vkResult := rs\<rparr>) t = Inr t') \<longleftrightarrow> (\<exists>t'. render drv t = Inr t'))"
proof -
  have 1: "checkResult r t = Inl DebugBreak \<longleftrightarrow> r \<noteq> VK_SUCCESS"
    by (simp add: checkResult_def)
  note 2 = initialize_checked [of drv s0 s]
  note 3 = initialize_returns_or_breaks [of drv s0]
  note 4 = initialize_instance_breaks [of drv s0]
  have 5: "render drv t \<noteq> Inl DebugBreak" by (simp add: render_eq)
  have 6: "render (drv\<lparr>vkResult := rs\<rparr>) t =
            Inr (t\<lparr>m_imageIndex := acquiredIndex drv (length (driverCalls t)),
                   driverCalls := driverCalls t @ frameCalls (drv\<lparr>vkResult := rs\<rparr>) t\<rparr>)"
    if "unat (acquiredIndex drv (length (driverCalls t))) < length (m_fences t)
        \<and> unat (acquiredIndex drv (length (driverCalls t))) < length (m_framebuffers t)
        \<and> unat (acquiredIndex drv (length (driverCalls t))) < length (m_commands t)"
    using that by (simp add: render_eq)
  have 7: "(\<exists>t'. render (drv\<lparr>vkResult := rs\<rparr>) t = Inr t') \<longleftrightarrow> (\<exists>t'. render drv t = Inr t')"
    by (simp add: render_eq)
  from 1 2 3 4 5 6 7 show ?thesis by blast
qed

theorem checkResult_guards_creation_calls_only_witness:
  "(\<exists>s0. checkResult VK_ERROR_DEVICE_LOST s0 = Inl DebugBreak)
   \<and> initialize lostDriver (VulkanAppBase_ctor blank) = Inl DebugBreak
   \<and> (\<exists>s t'. initialize demoDriver (VulkanAppBase_ctor blank) = Inr s
        \<and> (\<forall>e\<in>set (driverCalls s). checkedCall e \<longrightarrow> resultCode e = Some VK_SUCCESS)
        \<and> render lostDriver s = Inr t'
        \<and> driverCalls t' = driverCalls s @ frameCalls lostDriver s)"
proof -
  obtain s where h: "initialize demoDriver (VulkanAppBase_ctor blank) = Inr s"
    using initialize_total [OF demo_ok demo_dev] by blast
  have n: "unat (swapchainImageCount demoDriver) = 3" by (simp add: demoDriver_def)
  from initialize_steps [OF h] n have lens: "length (m_fences s) = 3"
    "length (m_framebuffers s) = 3" "length (m_commands s) = 3" by auto
  have idx: "acquiredIndex demoDriver k = 1" for k by (simp add: demoDriver_def)
  have rng: "unat (acquiredIndex demoDriver (length (driverCalls s))) < length (m_fences s)
      \<and> unat (acquiredIndex demoDriver (length (driverCalls s))) < length (m_framebuffers s)
      \<and> unat (acquiredIndex demoDriver (length (driverCalls s))) < length (m_commands s)"
    by (simp add: idx lens)
  note T = checkResult_guards_creation_calls_only
    [of VK_ERROR_DEVICE_LOST s demoDriver "VulkanAppBase_ctor blank" s
        "\<lambda>n. VK_ERROR_DEVICE_LOST"]
  note L = checkResult_guards_creation_calls_only
    [of VK_ERROR_DEVICE_LOST s lostDriver "VulkanAppBase_ctor blank" s
        "\<lambda>n. VK_ERROR_DEVICE_LOST"]
  from T have a: "checkResult VK_ERROR_DEVICE_LOST s = Inl DebugBreak"
    by (simp add: VK_ERROR_DEVICE_LOST_def VK_SUCCESS_def)
  have "vkResult lostDriver (length (driverCalls (VulkanAppBase_ctor blank)) + 2) \<noteq> VK_SUCCESS"
    by (simp add: lostDriver_def VK_ERROR_DEVICE_LOST_def VK_SUCCESS_def)
  with L have b: "initialize lostDriver (VulkanAppBase_ctor blank) = Inl DebugBreak" by blast
  from T h have c: "\<forall>e\<in>set (driverCalls s). checkedCall e \<longrightarrow> resultCode e = Some VK_SUCCESS"
    by (simp add: ctor_calls)
  from T rng have "render (demoDriver\<lparr>vkResult := \<lambda>n. VK_ERROR_DEVICE_LOST\<rparr>) s =
      Inr (s\<lparr>m_imageIndex := acquiredIndex demoDriver (length (driverCalls s)),
             driverCalls := driverCalls s @
               frameCalls (demoDriver\<lparr>vkResult := \<lambda>n. VK_ERROR_DEVICE_LOST\<rparr>) s\<rparr>)"
    by blast
  then have d: "\<exists>t'. render lostDriver s = Inr t'
      \<and> driverCalls t' = driverCalls s @ frameCalls lostDriver s"
    by (simp add: lostDriver_def)
  from a b c d h show ?thesis by blast
qed

theorem render_ignores_results_counterexample:
  "(\<exists>s s'. initialize demoDriver (VulkanAppBase_ctor blank) = Inr s
      \<and> render lostDriver s = Inr s'
      \<and> map resultCode (drop (length (driverCalls s)) (driverCalls s')) =
          [Some (- 4), Some (- 4), Some (- 4), None, None, None,
           Some (- 4), Some (- 4), Some (- 4), Some (- 4)])
   \<and> map_sum id driverCalls (render lostDriver frameState) =
     Inr [AcquireNextImage 9 0 1 (- 4), WaitForFences 32 (- 4), BeginCommandBuffer 12 (- 4),
          CmdBeginRenderPass 12 0 22 \<lparr>width = 0, height = 0\<rparr>, MakeCommand 12 1,
          CmdEndRenderPass 12, EndCommandBuffer 12 (- 4), ResetFences 32 (- 4),
          QueueSubmit 12 0 0 32 (- 4), QueuePresent 9 1 0 (- 4)]"
proof -
  obtain s where h: "initialize demoDriver (VulkanAppBase_ctor blank) = Inr s"
    using initialize_total [OF demo_ok demo_dev] by blast
  have n: "unat (swapchainImageCount demoDriver) = 3" by (simp add: demoDriver_def)
  from initialize_steps [OF h] n have lens: "length (m_fences s) = 3"
    "length (m_framebuffers s) = 3" "length (m_commands s) = 3" by auto
  have idx: "acquiredIndex lostDriver k = 1" for k by (simp add: lostDriver_def demoDriver_def)
  have res: "vkResult lostDriver k = - 4" for k
    by (simp add: lostDriver_def VK_ERROR_DEVICE_LOST_def)
  have r: "render lostDriver s =
      Inr (s\<lparr>m_imageIndex := 1, driverCalls := driverCalls s @ frameCalls lostDriver s\<rparr>)"
    by (simp add: render_eq idx lens)
  have m: "map resultCode (frameCalls lostDriver s) =
          [Some (- 4), Some (- 4), Some (- 4), None, None, None,
           Some (- 4), Some (- 4), Some (- 4), Some (- 4)]"
    by (simp add: frameCalls_def Let_def res)
  from r m have "\<exists>s'. render lostDriver s = Inr s'
      \<and> map resultCode (drop (length (driverCalls s)) (driverCalls s')) =
          [Some (- 4), Some (- 4), Some (- 4), None, None, None,
           Some (- 4), Some (- 4), Some (- 4), Some (- 4)]"
    by simp
  then have "\<exists>s'. initialize demoDriver (VulkanAppBase_ctor blank) = Inr s
      \<and> render lostDriver s = Inr s'
      \<and> map resultCode (drop (length (driverCalls s)) (driverCalls s')) =
          [Some (- 4), Some (- 4), Some (- 4), None, None, None,
           Some (- 4), Some (- 4), Some (- 4), Some (- 4)]"
    by (simp only: h simp_thms)
  then have 1: "\<exists>s s'. initialize demoDriver (VulkanAppBase_ctor blank) = Inr s
      \<and> render lostDriver s = Inr s'
      \<and> map resultCode (drop (length (driverCalls s)) (driverCalls s')) =
          [Some (- 4), Some (- 4), Some (- 4), None, None, None,
           Some (- 4), Some (- 4), Some (- 4), Some (- 4)]" by (rule exI)
  have 2: "map_sum id driverCalls (render lostDriver frameState) =
     Inr [AcquireNextImage 9 0 1 (- 4), WaitForFences 32 (- 4), BeginCommandBuffer 12 (- 4),
          CmdBeginRenderPass 12 0 22 \<lparr>width = 0, height = 0\<rparr>, MakeCommand 12 1,
          CmdEndRenderPass 12, EndCommandBuffer 12 (- 4), ResetFences 32 (- 4),
          QueueSubmit 12 0 0 32 (- 4), QueuePresent 9 1 0 (- 4)]"
    by (simp add: render_eq frameCalls_def lostDriver_def demoDriver_def frameState_def blank_def
        VK_ERROR_DEVICE_LOST_def)
  from 1 2 show ?thesis by (rule conjI)
qed

text \<open>
  Claim C8: after \<open>initialize\<close> the images are those the swapchain returned; the
  fences in \<open>m_fences\<close> are exactly the fences created, one per image, each with the
  signaled flag; the command buffers in \<open>m_commands\<close> are exactly those allocated
  at the primary level, one per image, and none is allocated at another level.
  When every acquired index is below the number of images, any number of frames
  runs to its end; and in any such run the frames create no fence and allocate no
  primary command buffer, and the first wait on each fence finds it signaled.
\<close>
theorem fences_created_signaled_first_wait_ready:
  assumes h: "initialize drv (VulkanAppBase_ctor raw) = Inr s"
  shows "m_swapchainImages s = map (swapchainImage drv) [0..<unat (swapchainImageCount drv)]
     \<and> created Fence (driverCalls s) = m_fences s
     \<and> length (m_fences s) = length (m_swapchainImages s)
     \<and> allocated VK_COMMAND_BUFFER_LEVEL_PRIMARY (driverCalls s) = m_commands s
     \<and> (\<forall>l. l \<noteq> VK_COMMAND_BUFFER_LEVEL_PRIMARY \<longrightarrow> allocated l (driverCalls s) = [])
     \<and> length (m_commands s) = length (m_swapchainImages s)
     \<and> ((\<forall>k. unat (acquiredIndex drv k) < unat (swapchainImageCount drv)) \<longrightarrow>
          (\<exists>s'. renders drv n s = Inr s'))
     \<and> (\<forall>s'. renders drv n s = Inr s' \<longrightarrow>
          firstWaitsDoNotBlock (driverCalls s')
        \<and> (\<forall>ci f r. Create Fence ci f r \<in> set (driverCalls s')
              \<longrightarrow> ci = FenceCI VK_FENCE_CREATE_SIGNALED_BIT)
        \<and> created Fence (driverCalls s') = m_fences s
        \<and> allocated VK_COMMAND_BUFFER_LEVEL_PRIMARY (driverCalls s') = m_commands s
        \<and> m_fences s' = m_fences s \<and> m_commands s' = m_commands s)"
proof -
  from initialize_steps [OF h] obtain es where st: "initStep (VulkanAppBase_ctor raw) s es"
    and made: "\<forall>f\<in>set (m_fences s). \<exists>r.
           Create Fence (FenceCI VK_FENCE_CREATE_SIGNALED_BIT) f r \<in> set es"
    and lens: "length (m_swapchainImages s) = unat (swapchainImageCount drv)"
      "length (m_framebuffers s) = unat (swapchainImageCount drv)"
      "length (m_commands s) = unat (swapchainImageCount drv)"
      "length (m_fences s) = unat (swapchainImageCount drv)"
    by blast
  from st have calls: "driverCalls s = es" and init: "list_all initEvent es"
    by (simp_all add: initStep_def ctor_calls)
  from init have init': "\<forall>e\<in>set es. initEvent e" by (simp add: list_all_iff)
  from initialize_made [OF h] have mk:
    "m_swapchainImages s = map (swapchainImage drv) [0..<unat (swapchainImageCount drv)]"
    "created Fence (driverCalls s) = m_fences s"
    "allocated VK_COMMAND_BUFFER_LEVEL_PRIMARY (driverCalls s) = m_commands s"
    "\<forall>l. l \<noteq> VK_COMMAND_BUFFER_LEVEL_PRIMARY \<longrightarrow> allocated l (driverCalls s) = []"
    by (simp_all add: ctor_calls)
  have tot: "\<exists>s'. renders drv n s = Inr s'"
    if "\<forall>k. unat (acquiredIndex drv k) < unat (swapchainImageCount drv)"
    using that lens by (intro renders_returns) simp_all
  have run: "firstWaitsDoNotBlock (driverCalls s')
        \<and> (\<forall>ci f r. Create Fence ci f r \<in> set (driverCalls s')
              \<longrightarrow> ci = FenceCI VK_FENCE_CREATE_SIGNALED_BIT)
        \<and> created Fence (driverCalls s') = m_fences s
        \<and> allocated VK_COMMAND_BUFFER_LEVEL_PRIMARY (driverCalls s') = m_commands s
        \<and> m_fences s' = m_fences s \<and> m_commands s' = m_commands s"
    if r: "renders drv n s = Inr s'" for s'
  proof -
    from fence_scan_init [OF init, of "[]" "[]" True] obtain sig0 where
      scan0: "foldl fenceStep ([], [], True) es = (sig0, [], True)" and
      in0: "\<forall>f r. Create Fence (FenceCI VK_FENCE_CREATE_SIGNALED_BIT) f r \<in> set es
               \<longrightarrow> f \<in> set sig0"
      by blast
    from made in0 have inv: "\<forall>g\<in>set (m_fences s). g \<in> set [] \<or> g \<in> set sig0" by blast
    from renders_fences [OF r] obtain fs where fs: "driverCalls s' = driverCalls s @ fs"
      and later: "\<forall>sig w. (\<forall>g\<in>set (m_fences s). g \<in> set w \<or> g \<in> set sig) \<longrightarrow>
               (\<exists>sig' w'. foldl fenceStep (sig, w, True) fs = (sig', w', True))"
      by blast
    from later inv obtain sig1 w1 where "foldl fenceStep (sig0, [], True) fs = (sig1, w1, True)"
      by blast
    with scan0 fs calls have 1: "firstWaitsDoNotBlock (driverCalls s')"
      by (simp add: firstWaitsDoNotBlock_def)
    from renders_steps [OF r] fs have frames: "list_all frameEvent fs"
      and tr: "tracked s' = tracked s" by auto
    from frames have frames': "\<forall>e\<in>set fs. frameEvent e" by (simp add: list_all_iff)
    have 2: "\<forall>ci f r. Create Fence ci f r \<in> set (driverCalls s')
           \<longrightarrow> ci = FenceCI VK_FENCE_CREATE_SIGNALED_BIT"
    proof (intro allI impI)
      fix ci f r assume "Create Fence ci f r \<in> set (driverCalls s')"
      with fs calls have "Create Fence ci f r \<in> set es \<or> Create Fence ci f r \<in> set fs" by simp
      then show "ci = FenceCI VK_FENCE_CREATE_SIGNALED_BIT"
      proof
        assume "Create Fence ci f r \<in> set es"
        with init' have "initEvent (Create Fence ci f r)" by blast
        then show ?thesis by (rule initEvent_Fence)
      next
        assume "Create Fence ci f r \<in> set fs"
        with frames' have "frameEvent (Create Fence ci f r)" by blast
        then show ?thesis by simp
      qed
    qed
    from frames_make_nothing [OF frames] fs mk
    have 3: "created Fence (driverCalls s') = m_fences s"
      "allocated VK_COMMAND_BUFFER_LEVEL_PRIMARY (driverCalls s') = m_commands s"
      by simp_all
    from tr have 4: "m_fences s' = m_fences s" "m_commands s' = m_commands s"
      by (simp_all add: tracked_def)
    from 1 2 3 4 show ?thesis by blast
  qed
  from mk lens tot run show ?thesis by simp
qed

theorem fences_created_signaled_first_wait_ready_witness:
  "\<exists>s s'. initialize demoDriver (VulkanAppBase_ctor blank) = Inr s
     \<and> renders demoDriver (Suc (Suc 0)) s = Inr s'
     \<and> firstWaitsDoNotBlock (driverCalls s')
     \<and> created Fence (driverCalls s') = m_fences s
     \<and> allocated VK_COMMAND_BUFFER_LEVEL_PRIMARY (driverCalls s') = m_commands s
     \<and> length (m_fences s) = 3 \<and> length (m_commands s) = 3"
proof -
  obtain s where h: "initialize demoDriver (VulkanAppBase_ctor blank) = Inr s"
    using initialize_total [OF demo_ok demo_dev] by blast
  note T = fences_created_signaled_first_wait_ready [OF h, of "Suc (Suc 0)"]
  have rng: "\<forall>k. unat (acquiredIndex demoDriver k) < unat (swapchainImageCount demoDriver)"
    by (simp add: demoDriver_def)
  have imgs: "map (swapchainImage demoDriver) [0..<unat (swapchainImageCount demoDriver)]
      = [50, 51, 52]"
    by (simp add: demoDriver_def upt_rec)
  from T rng obtain s' where r: "renders demoDriver (Suc (Suc 0)) s = Inr s'" by blast
  from T imgs have lens: "length (m_fences s) = 3" "length (m_commands s) = 3" by simp_all
  from T r have "firstWaitsDoNotBlock (driverCalls s')"
    "created Fence (driverCalls s') = m_fences s"
    "allocated VK_COMMAND_BUFFER_LEVEL_PRIMARY (driverCalls s') = m_commands s" by blast+
  with h r lens show ?thesis by blast
qed

lemma session_leaks:
  assumes "session drv n raw = Inr s"
  shows "(\<exists>ci h r. Create Image ci h r \<in> set (driverCalls s))
     \<and> (\<exists>ci h r. Create DeviceMemory ci h r \<in> set (driverCalls s))
     \<and> (\<exists>ci h r. Create ImageView ci h r \<in> set (driverCalls s))
     \<and> (\<forall>k h. Destroy k h \<in> set (driverCalls s) \<longrightarrow>
           k \<in> {RenderPass, Framebuffer, Swapchain, Fence, Semaphore, CommandPool, Surface,
                Device, Instance})"
proof -
  from assms obtain s1 s2 where h: "initialize drv (VulkanAppBase_ctor raw) = Inr s1"
    and r: "renders drv n s1 = Inr s2" and s: "s = terminate drv s2"
    by (auto simp: session_def andThen_Inr_iff)
  from initialize_steps [OF h] obtain es where st: "initStep (VulkanAppBase_ctor raw) s1 es"
    and img: "\<exists>ci h r. Create Image ci h r \<in> set es"
    and mem: "\<exists>ci h r. Create DeviceMemory ci h r \<in> set es"
    and view: "\<exists>ci h r. Create ImageView ci h r \<in> set es"
    by blast
  from st have c1: "driverCalls s1 = es" and init: "\<forall>e\<in>set es. initEvent e"
    by (simp_all add: initStep_def ctor_calls list_all_iff)
  from renders_steps [OF r] obtain fs where c2: "driverCalls s2 = driverCalls s1 @ fs"
    and frames: "\<forall>e\<in>set fs. frameEvent e"
    by (auto simp: list_all_iff)
  define T where "T =
     [DeviceWaitIdle (vkResult drv (length (driverCalls s2))), Cleanup,
      FreeCommandBuffers (m_commandPool s2) (m_commands s2),
      Destroy RenderPass (m_renderPass s2)] @
     map (Destroy Framebuffer) (m_framebuffers s2) @
     [Destroy Swapchain (m_swapchain s2)] @
     map (Destroy Fence) (m_fences s2) @
     [Destroy Semaphore (m_presentCompletedSem s2), Destroy Semaphore (m_renderCompletedSem s2),
      Destroy CommandPool (m_commandPool s2), Destroy Surface (m_surface s2),
      Destroy Device (m_device s2), Destroy Instance (m_instance s2)]"
  have c3: "driverCalls s = es @ fs @ T"
    unfolding s terminate_calls c2 c1 T_def by simp
  have d: "k \<in> {RenderPass, Framebuffer, Swapchain, Fence, Semaphore, CommandPool, Surface,
                Device, Instance}" if "Destroy k h \<in> set (driverCalls s)" for k h
  proof -
    from that have "Destroy k h \<in> set (es @ fs @ T)" unfolding c3 .
    then have "Destroy k h \<in> set es \<or> Destroy k h \<in> set fs \<or> Destroy k h \<in> set T"
      unfolding set_append Un_iff .
    then show ?thesis
    proof (elim disjE)
      assume "Destroy k h \<in> set es"
      with init have "initEvent (Destroy k h)" by blast
      then show ?thesis by simp
    next
      assume "Destroy k h \<in> set fs"
      with frames have "frameEvent (Destroy k h)" by blast
      then show ?thesis by simp
    next
      assume "Destroy k h \<in> set T"
      then show ?thesis by (auto simp: T_def)
    qed
  qed
  from img c3 have 1: "\<exists>ci h r. Create Image ci h r \<in> set (driverCalls s)" by auto
  from mem c3 have 2: "\<exists>ci h r. Create DeviceMemory ci h r \<in> set (driverCalls s)" by auto
  from view c3 have 3: "\<exists>ci h r. Create ImageView ci h r \<in> set (driverCalls s)" by auto
  from 1 2 3 d show ?thesis by blast
qed

text \<open>
  Claim C3 at a concrete run (initialize, no frame, terminate, with a driver that always
  succeeds): the run creates the depth image, its memory and image views, and
  \<open>terminate\<close> issues no destroy or free for any image, device memory or image view.
\<close>
theorem terminate_leaks_depth_buffer_and_views:
  "\<exists>s. session demoDriver 0 blank = Inr s
     \<and> (\<exists>ci h r. Create Image ci h r \<in> set (driverCalls s))
     \<and> (\<exists>ci h r. Create DeviceMemory ci h r \<in> set (driverCalls s))
     \<and> (\<exists>ci h r. Create ImageView ci h r \<in> set (driverCalls s))
     \<and> \<not> (\<exists>h. Destroy Image h \<in> set (driverCalls s))
     \<and> \<not> (\<exists>h. Destroy DeviceMemory h \<in> set (driverCalls s))
     \<and> \<not> (\<exists>h. Destroy ImageView h \<in> set (driverCalls s))"
proof -
  obtain s1 where h: "initialize demoDriver (VulkanAppBase_ctor blank) = Inr s1"
    using initialize_total [OF demo_ok demo_dev] by blast
  then have run: "session demoDriver 0 blank = Inr (terminate demoDriver s1)"
    by (simp add: session_def)
  from session_leaks [OF run] run show ?thesis by (intro exI [of _ "terminate demoDriver s1"]) auto
qed

end
